theory Spec2Isabelle
  imports Main "HOL-Library.Sublist"
begin

section \<open>nbgrader.dbutil: a temporary alembic.ini and the alembic subprocess\<close>

text \<open>
  The module \<^verbatim>\<open>nbgrader/dbutil.py\<close> fills a template \<^verbatim>\<open>alembic.ini\<close>, writes it
  into a temporary directory, runs the \<^verbatim>\<open>alembic\<close> command line tool on it and removes
  the directory again. Everything it does is an effect on the file system or a subprocess,
  so the embedding passes the state explicitly: every operation takes the state and returns
  a result together with the new state, and an exception is the left summand of the result.
\<close>

subsection \<open>Exceptions\<close>

text \<open>
  The subclasses of \<^verbatim>\<open>OSError\<close> that the operations below raise, and two errors that
  are plain \<^verbatim>\<open>OSError\<close>s told apart by their \<^verbatim>\<open>errno\<close>: \<^verbatim>\<open>EIO\<close> (the device
  fails) and \<^verbatim>\<open>ENOSPC\<close> (no space left on the device).
\<close>

datatype oserror =
    FileNotFoundError | FileExistsError | IsADirectoryError | NotADirectoryError
  | PermissionError | Errno_EIO | Errno_ENOSPC

text \<open>
  \<open>OSError k p\<close> is the exception of class \<open>k\<close> with \<^verbatim>\<open>filename\<close> \<open>p\<close>;
  \<open>CalledProcessError n cmd\<close> carries \<^verbatim>\<open>returncode\<close> and \<^verbatim>\<open>cmd\<close>;
  \<open>Exception c\<close> stands for any other exception class \<open>c\<close> that a caller-supplied
  operation may raise. \<open>FormatFieldNotModelled\<close> is not a Python exception: it marks a
  replacement field that uses a part of the format mini-language that \<open>str_format\<close>
  below does not cover.
\<close>

datatype error =
    OSError oserror string
  | KeyError string
  | IndexError
  | ValueError
  | CalledProcessError int "string list"
  | Exception string
  | FormatFieldNotModelled

subsection \<open>Paths (posixpath)\<close>

definition isabs :: "string \<Rightarrow> bool" where
  "isabs p = (case p of [] \<Rightarrow> False | c # _ \<Rightarrow> c = CHR ''/'')"

text \<open>\<^verbatim>\<open>os.path.join(a, b)\<close> with two arguments.\<close>

definition os_path_join :: "string \<Rightarrow> string \<Rightarrow> string" where
  "os_path_join a b =
     (if isabs b then b
      else if a = [] \<or> last a = CHR ''/'' then a @ b
      else a @ ''/'' @ b)"

text \<open>
  \<^verbatim>\<open>os.path.dirname(p)\<close>: the text up to and including the last slash, with the
  trailing slashes stripped unless it consists of slashes only.
\<close>

definition dirname :: "string \<Rightarrow> string" where
  "dirname p =
     (let head = rev (dropWhile (\<lambda>c. c \<noteq> CHR ''/'') (rev p))
      in if head \<noteq> [] \<and> \<not> list_all (\<lambda>c. c = CHR ''/'') head
         then rev (dropWhile (\<lambda>c. c = CHR ''/'') (rev head))
         else head)"

text \<open>
  \<open>inside d p\<close>: the path \<open>p\<close> lies below the directory \<open>d\<close>. Paths are compared
  as strings: the model does not normalise \<^verbatim>\<open>.\<close>, \<^verbatim>\<open>..\<close> or repeated slashes and has
  no symbolic links.
\<close>

definition inside :: "string \<Rightarrow> string \<Rightarrow> bool" where
  "inside d p =
     (let d' = (if d \<noteq> [] \<and> last d = CHR ''/'' then d else d @ ''/'')
      in prefix d' p \<and> d' \<noteq> p)"

subsection \<open>The file system\<close>

text \<open>
  \<open>files\<close> maps the path of every regular file to its content, \<open>dirs\<close> is the set of
  directories; both are keyed by resolved paths. \<open>read_denied\<close> are the paths the
  process may not open for reading, \<open>write_denied\<close> the paths it may not change: it may
  neither create them, nor open them for writing, nor remove them. \<open>read_faults\<close> and
  \<open>write_faults\<close> are the paths on a failing or a full device: a file there can be
  opened, but \<^verbatim>\<open>f.read()\<close> raises \<^verbatim>\<open>EIO\<close>, respectively \<^verbatim>\<open>f.write()\<close> or the flush
  on closing raises \<^verbatim>\<open>ENOSPC\<close>. \<open>cwd\<close> is the working directory. \<open>tmp_names\<close> are
  the random names that \<^verbatim>\<open>tempfile\<close> draws next (at most \<^verbatim>\<open>TMP_MAX\<close> of them are
  tried per call). \<^verbatim>\<open>tempfile.gettempdir()\<close> is an absolute path, since \<^verbatim>\<open>tempfile\<close>
  applies \<^verbatim>\<open>abspath\<close> to it; \<open>tempdir_below_root\<close> holds what follows its leading
  slash, so that \<open>gettempdir\<close> is absolute in every state.
\<close>

record filesys =
  files :: "string \<rightharpoonup> string"
  dirs :: "string set"
  read_denied :: "string set"
  write_denied :: "string set"
  read_faults :: "string set"
  write_faults :: "string set"
  cwd :: string
  tempdir_below_root :: string
  tmp_names :: "string list"

definition gettempdir :: "filesys \<Rightarrow> string" where
  "gettempdir f = CHR ''/'' # tempdir_below_root f"

text \<open>A relative path is resolved against the working directory by the operating system.\<close>

definition resolve :: "filesys \<Rightarrow> string \<Rightarrow> string" where
  "resolve f p = (if isabs p then p else os_path_join (cwd f) p)"

text \<open>
  \<^verbatim>\<open>with open(p) as f: f.read()\<close>: the content of the file, or the exception of
  \<^verbatim>\<open>open\<close> (a path with a NUL character is a \<^verbatim>\<open>ValueError\<close>), or the exception of
  \<^verbatim>\<open>f.read()\<close> when the file was opened and cannot be read. Contents are sequences of
  bytes: decoding is not modelled.
\<close>

definition open_read :: "filesys \<Rightarrow> string \<Rightarrow> error + string" where
  "open_read f p =
     (let q = resolve f p in
      if CHR 0x00 \<in> set p then Inl ValueError
      else if p = [] then Inl (OSError FileNotFoundError p)
      else if q \<in> dirs f then Inl (OSError IsADirectoryError p)
      else case files f q of
             None \<Rightarrow> Inl (OSError FileNotFoundError p)
           | Some text \<Rightarrow>
               if q \<in> read_denied f then Inl (OSError PermissionError p)
               else if q \<in> read_faults f then Inl (OSError Errno_EIO p)
               else Inr text)"

text \<open>If the parent of \<open>q\<close> is no directory, the exception says what is there instead.\<close>

definition parent_error :: "filesys \<Rightarrow> string \<Rightarrow> string \<Rightarrow> error" where
  "parent_error f q p =
     (if files f (dirname q) \<noteq> None then OSError NotADirectoryError p
      else OSError FileNotFoundError p)"

text \<open>\<^verbatim>\<open>open(p, 'w')\<close>: creates the file or truncates it, or raises.\<close>

definition open_write :: "filesys \<Rightarrow> string \<Rightarrow> error + filesys" where
  "open_write f p =
     (let q = resolve f p in
      if CHR 0x00 \<in> set p then Inl ValueError
      else if p = [] then Inl (OSError FileNotFoundError p)
      else if q \<in> dirs f then Inl (OSError IsADirectoryError p)
      else if dirname q \<notin> dirs f then Inl (parent_error f q p)
      else if q \<in> write_denied f then Inl (OSError PermissionError p)
      else Inr (f\<lparr>files := (files f)(q \<mapsto> [])\<rparr>))"

text \<open>
  \<^verbatim>\<open>f.write(text)\<close> and closing, on the file opened at \<open>p\<close>: the file receives the
  text, or the write or the flush on closing raises. What the file holds after a failed
  write (at most a part of the text) is left out: the model keeps it as \<^verbatim>\<open>open\<close> left
  it, empty.
\<close>

definition file_write :: "filesys \<Rightarrow> string \<Rightarrow> string \<Rightarrow> error + filesys" where
  "file_write f p text =
     (let q = resolve f p in
      if q \<in> write_faults f then Inl (OSError Errno_ENOSPC p)
      else Inr (f\<lparr>files := (files f)(q \<mapsto> text)\<rparr>))"

text \<open>\<^verbatim>\<open>os.mkdir(p)\<close>.\<close>

definition os_mkdir :: "filesys \<Rightarrow> string \<Rightarrow> error + filesys" where
  "os_mkdir f p =
     (let q = resolve f p in
      if q \<in> dirs f \<or> files f q \<noteq> None then Inl (OSError FileExistsError p)
      else if dirname q \<notin> dirs f then Inl (parent_error f q p)
      else if q \<in> write_denied f then Inl (OSError PermissionError p)
      else Inr (f\<lparr>dirs := insert q (dirs f)\<rparr>))"

text \<open>
  \<^verbatim>\<open>tempfile.mkdtemp()\<close>: for each candidate name, try to create
  \<^verbatim>\<open>join(gettempdir(), 'tmp' + name)\<close>; a name that exists already is skipped, any other
  failure is raised, and running out of names raises \<^verbatim>\<open>FileExistsError\<close>.
\<close>

fun mkdtemp_try :: "string list \<Rightarrow> filesys \<Rightarrow> (error + string) \<times> filesys" where
  "mkdtemp_try [] f = (Inl (OSError FileExistsError []), f)"
| "mkdtemp_try (name # names) f =
     (let file = os_path_join (gettempdir f) (''tmp'' @ name);
          f0 = f\<lparr>tmp_names := names\<rparr>
      in case os_mkdir f0 file of
           Inr f1 \<Rightarrow> (Inr file, f1)
         | Inl e \<Rightarrow>
             if e = OSError FileExistsError file then mkdtemp_try names f0
             else (Inl e, f0))"

definition mkdtemp :: "filesys \<Rightarrow> (error + string) \<times> filesys" where
  "mkdtemp f = mkdtemp_try (tmp_names f) f"

text \<open>
  \<^verbatim>\<open>shutil.rmtree(p)\<close>, called without \<^verbatim>\<open>ignore_errors\<close>: removes the directory and
  everything below it. It raises when \<open>p\<close> is no directory, and it raises
  \<^verbatim>\<open>PermissionError\<close> when the process may not remove the directory. The model decides
  that for the tree as a whole, by the path of its root, and leaves the tree as it is
  when the removal fails; which entries a failing \<^verbatim>\<open>rmtree\<close> has removed before it
  raises depends on the order of the directory listing.
\<close>

definition rmtree :: "filesys \<Rightarrow> string \<Rightarrow> (error + unit) \<times> filesys" where
  "rmtree f p =
     (let q = resolve f p in
      if q \<in> dirs f
      then (if q \<in> write_denied f then (Inl (OSError PermissionError p), f)
            else (Inr (),
                  f\<lparr>files := (\<lambda>x. if inside q x then None else files f x),
                    dirs := Set.filter (\<lambda>d. d \<noteq> q \<and> \<not> inside q d) (dirs f)\<rparr>))
      else if files f q \<noteq> None then (Inl (OSError NotADirectoryError p), f)
      else (Inl (OSError FileNotFoundError p), f))"

subsection \<open>str.format with keyword arguments only\<close>

text \<open>
  \<^verbatim>\<open>tpl.format(**kw)\<close> scans the template from left to right. \<^verbatim>\<open>{{\<close> and \<^verbatim>\<open>}}\<close>
  give one brace, a single \<^verbatim>\<open>}\<close> or a \<^verbatim>\<open>{\<close> at the very end is a \<^verbatim>\<open>ValueError\<close>, and
  \<^verbatim>\<open>{name}\<close> is replaced by the keyword argument \<^verbatim>\<open>name\<close>. There are no positional
  arguments, so an empty or numeric field name is an \<^verbatim>\<open>IndexError\<close>. \<open>get_integer\<close>
  reads the name as a decimal number: it gives \<open>None\<close> (the \<^verbatim>\<open>-1\<close> of CPython) for the
  empty name and at the first character that is no digit, and raises \<^verbatim>\<open>ValueError\<close> as
  soon as the next digit would take the number beyond \<^verbatim>\<open>PY_SSIZE_T_MAX\<close> (64 bit). The
  substituted value is not scanned again. Conversions (\<^verbatim>\<open>!r\<close>), format specifications (\<^verbatim>\<open>:>10\<close>), attribute
  and index access (\<^verbatim>\<open>.a\<close>, \<^verbatim>\<open>[0]\<close>) are outside the model: a field that uses one yields
  \<open>FormatFieldNotModelled\<close>.
\<close>

definition emit :: "string \<Rightarrow> error + string \<Rightarrow> error + string" where
  "emit s r = (case r of Inl e \<Rightarrow> Inl e | Inr t \<Rightarrow> Inr (s @ t))"

definition is_digit :: "char \<Rightarrow> bool" where
  "is_digit c = (c \<in> set ''0123456789'')"

fun get_integer_loop :: "int \<Rightarrow> string \<Rightarrow> error + int option" where
  "get_integer_loop accumulator [] = Inr (Some accumulator)"
| "get_integer_loop accumulator (c # cs) =
     (let digitval = int (of_char c) - 48 in
      if \<not> is_digit c then Inr None
      else if accumulator > (2 ^ 63 - 1 - digitval) div 10 then Inl ValueError
      else get_integer_loop (accumulator * 10 + digitval) cs)"

definition get_integer :: "string \<Rightarrow> error + int option" where
  "get_integer s = (if s = [] then Inr None else get_integer_loop 0 s)"

definition get_field :: "(string \<times> string) list \<Rightarrow> string \<Rightarrow> error + string" where
  "get_field kw name =
     (if CHR ''.'' \<in> set name then Inl FormatFieldNotModelled
      else case get_integer name of
             Inl e \<Rightarrow> Inl e
           | Inr index \<Rightarrow>
               if name = [] \<or> index \<noteq> None then Inl IndexError
               else case map_of kw name of None \<Rightarrow> Inl (KeyError name) | Some v \<Rightarrow> Inr v)"

fun render_literal :: "(string \<times> string) list \<Rightarrow> string \<Rightarrow> error + string"
  and render_field :: "(string \<times> string) list \<Rightarrow> string \<Rightarrow> string \<Rightarrow> error + string"
where
  "render_literal kw [] = Inr []"
| "render_literal kw (c # cs) =
     (if c = CHR ''}'' then
        (case cs of
           [] \<Rightarrow> Inl ValueError
         | d # rest \<Rightarrow> if d = CHR ''}'' then emit ''}'' (render_literal kw rest) else Inl ValueError)
      else if c = CHR ''{'' then
        (case cs of
           [] \<Rightarrow> Inl ValueError
         | d # rest \<Rightarrow> if d = CHR ''{'' then emit ''{'' (render_literal kw rest)
                      else render_field kw [] cs)
      else emit [c] (render_literal kw cs))"
| "render_field kw name [] = Inl ValueError"
| "render_field kw name (c # cs) =
     (if c = CHR ''{'' then Inl ValueError
      else if c = CHR ''}'' then
        (case get_field kw name of
           Inl e \<Rightarrow> Inl e
         | Inr v \<Rightarrow> emit v (render_literal kw cs))
      else if c = CHR ''['' \<or> c = CHR '':'' \<or> c = CHR ''!'' then Inl FormatFieldNotModelled
      else render_field kw (name @ [c]) cs)"

definition str_format :: "string \<Rightarrow> (string \<times> string) list \<Rightarrow> error + string" where
  "str_format tpl kw = render_literal kw tpl"

subsection \<open>The module\<close>

text \<open>
  \<open>here\<close> is the module constant \<^verbatim>\<open>_here\<close>, the absolute path of the directory that
  holds \<^verbatim>\<open>dbutil.py\<close>. It is fixed when the module is loaded, so every operation below
  takes it as its first parameter. The names are those of the source, without the leading
  underscore of \<^verbatim>\<open>_temp_alembic_ini\<close> and \<^verbatim>\<open>_alembic\<close>.
\<close>

definition ALEMBIC_INI_TEMPLATE_PATH :: "string \<Rightarrow> string" where
  "ALEMBIC_INI_TEMPLATE_PATH here = os_path_join here ''alembic.ini''"

definition ALEMBIC_DIR :: "string \<Rightarrow> string" where
  "ALEMBIC_DIR here = os_path_join here ''alembic''"

text \<open>
  A parameter with a default value is an \<open>option\<close>: \<open>None\<close> is the call that leaves the
  argument out. The target is opened, and so created or truncated, before the template is
  formatted; the \<^verbatim>\<open>with\<close> statement closes it on every path.
\<close>

definition write_alembic_ini ::
  "string \<Rightarrow> string option \<Rightarrow> string option \<Rightarrow> filesys \<Rightarrow> (error + unit) \<times> filesys" where
  "write_alembic_ini here alembic_ini_arg db_url_arg f =
     (let alembic_ini = (case alembic_ini_arg of None \<Rightarrow> ''alembic.ini'' | Some p \<Rightarrow> p);
          db_url = (case db_url_arg of None \<Rightarrow> ''sqlite:///gradebook.db'' | Some u \<Rightarrow> u)
      in case open_read f (ALEMBIC_INI_TEMPLATE_PATH here) of
           Inl e \<Rightarrow> (Inl e, f)
         | Inr alembic_ini_tpl \<Rightarrow>
             (case open_write f alembic_ini of
                Inl e \<Rightarrow> (Inl e, f)
              | Inr f1 \<Rightarrow>
                  (case str_format alembic_ini_tpl
                          [(''alembic_dir'', ALEMBIC_DIR here), (''db_url'', db_url)] of
                     Inl e \<Rightarrow> (Inl e, f1)
                   | Inr text \<Rightarrow>
                       (case file_write f1 alembic_ini text of
                          Inl e \<Rightarrow> (Inl e, f1)
                        | Inr f2 \<Rightarrow> (Inr (), f2)))))"

text \<open>
  The state of a run: the file system and the log of the argument lists that were passed
  to \<^verbatim>\<open>check_call\<close>, oldest first.
\<close>

record world =
  fsys :: filesys
  calls :: "string list list"

text \<open>
  The context manager \<^verbatim>\<open>_temp_alembic_ini\<close>, applied to the body of the \<^verbatim>\<open>with\<close>
  statement. \<^verbatim>\<open>mkdtemp\<close> runs before the \<^verbatim>\<open>try\<close>; the \<^verbatim>\<open>finally\<close> clause runs
  whether \<^verbatim>\<open>write_alembic_ini\<close> raised, the body raised or the body returned, and an
  exception of \<^verbatim>\<open>rmtree\<close> replaces the pending one.
\<close>

definition temp_alembic_ini ::
  "string \<Rightarrow> string \<Rightarrow> (string \<Rightarrow> world \<Rightarrow> (error + 'a) \<times> world) \<Rightarrow> world
     \<Rightarrow> (error + 'a) \<times> world" where
  "temp_alembic_ini here db_url body w =
     (case mkdtemp (fsys w) of
        (Inl e, f1) \<Rightarrow> (Inl e, w\<lparr>fsys := f1\<rparr>)
      | (Inr td, f1) \<Rightarrow>
          (let alembic_ini = os_path_join td ''alembic.ini'';
               (r, w3) =
                 (case write_alembic_ini here (Some alembic_ini) (Some db_url) f1 of
                    (Inl e, f2) \<Rightarrow> (Inl e, w\<lparr>fsys := f2\<rparr>)
                  | (Inr _, f2) \<Rightarrow> body alembic_ini (w\<lparr>fsys := f2\<rparr>))
           in case rmtree (fsys w3) td of
                (Inl e, f4) \<Rightarrow> (Inl e, w3\<lparr>fsys := f4\<rparr>)
              | (Inr _, f4) \<Rightarrow> (r, w3\<lparr>fsys := f4\<rparr>)))"

text \<open>
  The external program: given its argument list and the file system, it either cannot be
  started or exits with a code, and leaves a file system behind.
\<close>

datatype proc_result = Exited int | SpawnFailed oserror

type_synonym tool = "string list \<Rightarrow> filesys \<Rightarrow> proc_result \<times> filesys"

text \<open>
  \<^verbatim>\<open>subprocess.check_call(args)\<close>: an empty argument list has no program to start,
  a program that cannot be started raises the \<^verbatim>\<open>OSError\<close> of the attempt, and an exit
  code other than zero raises \<^verbatim>\<open>CalledProcessError\<close>.
\<close>

definition check_call :: "tool \<Rightarrow> string list \<Rightarrow> world \<Rightarrow> (error + unit) \<times> world" where
  "check_call run args w =
     (case args of
        [] \<Rightarrow> (Inl IndexError, w)
      | prog # _ \<Rightarrow>
          (case run args (fsys w) of
             (res, f') \<Rightarrow>
               (let w' = w\<lparr>fsys := f', calls := calls w @ [args]\<rparr>
                in case res of
                     SpawnFailed k \<Rightarrow> (Inl (OSError k prog), w')
                   | Exited n \<Rightarrow>
                       if n = 0 then (Inr (), w') else (Inl (CalledProcessError n args), w'))))"

definition upgrade ::
  "string \<Rightarrow> tool \<Rightarrow> string \<Rightarrow> string option \<Rightarrow> world \<Rightarrow> (error + unit) \<times> world" where
  "upgrade here run db_url revision_arg w =
     (let revision = (case revision_arg of None \<Rightarrow> ''head'' | Some r \<Rightarrow> r)
      in temp_alembic_ini here db_url
           (\<lambda>alembic_ini. check_call run [''alembic'', ''-c'', alembic_ini, ''upgrade'', revision])
           w)"

definition alembic :: "string \<Rightarrow> tool \<Rightarrow> string list \<Rightarrow> world \<Rightarrow> (error + unit) \<times> world" where
  "alembic here run args w =
     temp_alembic_ini here ''sqlite:///gradebook.db''
       (\<lambda>alembic_ini. check_call run ([''alembic'', ''-c'', alembic_ini] @ args))
       w"

subsection \<open>Templates, as the specification describes them\<close>

text \<open>
  Modelled from the spec: the template file \<^verbatim>\<open>alembic.ini\<close> of the package, which
  \<open>write_alembic_ini\<close> reads at run time, is not part of the source. The specification
  describes it as a text file with two named placeholders, one for the directory of the
  migration scripts and one for the database URL, which are resolved by template
  substitution. A template of that shape is a list of segments: literal text without
  braces, and the two placeholders. \<open>template_text\<close> is the text of the file and
  \<open>fill\<close> the same text with the placeholders replaced. The file system holds the
  template as any other file, so the operations themselves work on every content.
\<close>

datatype segment = Lit string | Dir_placeholder | Url_placeholder

fun template_text :: "segment list \<Rightarrow> string" where
  "template_text [] = []"
| "template_text (Lit s # segs) = s @ template_text segs"
| "template_text (Dir_placeholder # segs) = ''{alembic_dir}'' @ template_text segs"
| "template_text (Url_placeholder # segs) = ''{db_url}'' @ template_text segs"

fun fill :: "segment list \<Rightarrow> string \<Rightarrow> string \<Rightarrow> string" where
  "fill [] d u = []"
| "fill (Lit s # segs) d u = s @ fill segs d u"
| "fill (Dir_placeholder # segs) d u = d @ fill segs d u"
| "fill (Url_placeholder # segs) d u = u @ fill segs d u"

definition brace_free :: "string \<Rightarrow> bool" where
  "brace_free s = list_all (\<lambda>c. c \<noteq> CHR ''{'' \<and> c \<noteq> CHR ''}'') s"

fun plain_segment :: "segment \<Rightarrow> bool" where
  "plain_segment (Lit s) = brace_free s"
| "plain_segment _ = True"

subsection \<open>A concrete installation\<close>

text \<open>
  The package is installed in \<^verbatim>\<open>/opt/nbgrader\<close>; the template has the two settings of
  the real file; \<^verbatim>\<open>/tmp/x/alembic.ini\<close> holds an older file, and the first name that
  \<^verbatim>\<open>tempfile\<close> draws is taken already, so that \<open>mkdtemp\<close> creates \<open>demo_td\<close>.
  \<open>demo_fs1\<close> is the file system after \<open>mkdtemp\<close>, \<open>demo_fs2 url\<close> after the
  configuration for \<open>url\<close> has been written, and \<open>demo_fs3 url\<close> after \<open>demo_tool\<close>
  has run. \<open>demo_tool n\<close> writes a log file and exits with code \<open>n\<close>;
  \<open>demo_tool_rm\<close> removes the temporary directory and exits with code zero. In
  \<open>demo_fs_full\<close> the device of \<^verbatim>\<open>/tmp/x/alembic.ini\<close> is full. \<open>demo_protect\<close> is
  an operation for the body of the scope: it takes away the permission to change the
  directory of the configuration file, and returns.
\<close>

definition demo_here :: string where
  "demo_here = ''/opt/nbgrader''"

definition demo_segs :: "segment list" where
  "demo_segs =
     [Lit (''[alembic]'' @ [CHR 0x0A] @ ''script_location = ''), Dir_placeholder,
      Lit ([CHR 0x0A] @ ''sqlalchemy.url = ''), Url_placeholder, Lit [CHR 0x0A]]"

definition demo_fs :: filesys where
  "demo_fs =
     \<lparr>files = [''/opt/nbgrader/alembic.ini'' \<mapsto> template_text demo_segs,
               ''/tmp/x/alembic.ini'' \<mapsto> ''stale''],
      dirs = {''/'', ''/opt'', ''/opt/nbgrader'', ''/home'', ''/home/u'', ''/tmp'', ''/tmp/x'',
              ''/tmp/tmpq0w8e_rt''},
      read_denied = {}, write_denied = {}, read_faults = {}, write_faults = {},
      cwd = ''/home/u'', tempdir_below_root = ''tmp'',
      tmp_names = [''q0w8e_rt'', ''zk31m_x7'']\<rparr>"

definition demo_world :: world where
  "demo_world = \<lparr>fsys = demo_fs, calls = []\<rparr>"

definition demo_tool :: "int \<Rightarrow> tool" where
  "demo_tool n = (\<lambda>args f. (Exited n, f\<lparr>files := (files f)(''/home/u/alembic.log'' \<mapsto> ''ran'')\<rparr>))"

definition demo_td :: string where
  "demo_td = ''/tmp/tmpzk31m_x7''"

definition demo_ini :: string where
  "demo_ini = ''/tmp/tmpzk31m_x7/alembic.ini''"

definition demo_fs1 :: filesys where
  "demo_fs1 = demo_fs\<lparr>dirs := insert demo_td (dirs demo_fs), tmp_names := []\<rparr>"

definition demo_fs2 :: "string \<Rightarrow> filesys" where
  "demo_fs2 url =
     demo_fs1\<lparr>files := (files demo_fs1)(demo_ini \<mapsto> fill demo_segs ''/opt/nbgrader/alembic'' url)\<rparr>"

definition demo_fs3 :: "string \<Rightarrow> filesys" where
  "demo_fs3 url = (demo_fs2 url)\<lparr>files := (files (demo_fs2 url))(''/home/u/alembic.log'' \<mapsto> ''ran'')\<rparr>"

definition demo_tool_rm :: tool where
  "demo_tool_rm = (\<lambda>args f. (Exited 0, snd (rmtree f demo_td)))"

definition demo_fs_full :: filesys where
  "demo_fs_full = demo_fs\<lparr>write_faults := {''/tmp/x/alembic.ini''}\<rparr>"

definition demo_protect :: "string \<Rightarrow> world \<Rightarrow> (error + unit) \<times> world" where
  "demo_protect alembic_ini w =
     (Inr (), w\<lparr>fsys := (fsys w)\<lparr>write_denied :=
                                   insert (dirname alembic_ini) (write_denied (fsys w))\<rparr>\<rparr>)"

section \<open>Properties\<close>

subsection \<open>Formatting a template\<close>

lemma emit_Nil: "emit [] r = r"
  by (cases r) (simp_all add: emit_def)

lemma emit_emit: "emit s (emit t r) = emit (s @ t) r"
  by (cases r) (simp_all add: emit_def)

lemma emit_Inr: "emit s (Inr t) = Inr (s @ t)"
  by (simp add: emit_def)

lemma render_literal_plain:
  "brace_free s \<Longrightarrow> render_literal kw (s @ rest) = emit s (render_literal kw rest)"
proof (induction s)
  case Nil
  show ?case by (simp add: emit_Nil)
next
  case (Cons c s)
  then have "c \<noteq> CHR ''{''" "c \<noteq> CHR ''}''" "brace_free s"
    by (simp_all add: brace_free_def)
  with Cons.IH show ?case by (simp add: emit_emit)
qed

lemma render_dir:
  "render_literal [(''alembic_dir'', d), (''db_url'', u)] (''{alembic_dir}'' @ rest)
     = emit d (render_literal [(''alembic_dir'', d), (''db_url'', u)] rest)"
  by (simp add: get_field_def get_integer_def is_digit_def Let_def)

lemma render_url:
  "render_literal [(''alembic_dir'', d), (''db_url'', u)] (''{db_url}'' @ rest)
     = emit u (render_literal [(''alembic_dir'', d), (''db_url'', u)] rest)"
  by (simp add: get_field_def get_integer_def is_digit_def Let_def)

lemma str_format_segments:
  "list_all plain_segment segs \<Longrightarrow>
   str_format (template_text segs) [(''alembic_dir'', d), (''db_url'', u)] = Inr (fill segs d u)"
  unfolding str_format_def
proof (induction segs)
  case Nil
  show ?case by simp
next
  case (Cons seg segs)
  then have IH: "render_literal [(''alembic_dir'', d), (''db_url'', u)] (template_text segs)
                  = Inr (fill segs d u)" by simp
  show ?case
  proof (cases seg)
    case (Lit s)
    with Cons.prems have "brace_free s" by simp
    then show ?thesis using Lit IH by (simp add: render_literal_plain emit_Inr)
  next
    case Dir_placeholder
    then show ?thesis using IH render_dir [of d u "template_text segs"] by (simp add: emit_Inr)
  next
    case Url_placeholder
    then show ?thesis using IH render_url [of d u "template_text segs"] by (simp add: emit_Inr)
  qed
qed

lemma emit_Inl_iff: "emit s r = Inl e \<longleftrightarrow> r = Inl e"
  by (cases r) (simp_all add: emit_def)

lemma get_integer_loop_not_oserror: "get_integer_loop acc s \<noteq> Inl (OSError k x)"
  by (induction s arbitrary: acc) (simp_all add: Let_def)

lemma get_integer_not_oserror: "get_integer s \<noteq> Inl (OSError k x)"
  by (simp add: get_integer_def get_integer_loop_not_oserror)

lemma get_field_not_oserror: "get_field kw name \<noteq> Inl (OSError k x)"
  using get_integer_not_oserror [of name k x]
  by (auto simp: get_field_def split: sum.splits option.splits)

lemma render_not_oserror:
  "render_literal kw s \<noteq> Inl (OSError k x)"
  "render_field kw name s \<noteq> Inl (OSError k x)"
proof (induction kw s and kw name s rule: render_literal_render_field.induct)
  case (1 kw)
  show ?case by simp
next
  case (2 kw c cs)
  then show ?case by (auto simp: emit_Inl_iff split: list.splits)
next
  case (3 kw name)
  show ?case by simp
next
  case (4 kw name c cs)
  then show ?case
    using get_field_not_oserror [of kw name k x]
    by (auto simp: emit_Inl_iff split: sum.splits)
qed

lemma str_format_not_oserror: "str_format tpl kw \<noteq> Inl (OSError k x)"
  by (simp add: str_format_def render_not_oserror)

subsection \<open>The Configuration Writer\<close>

lemma open_write_Inr:
  "open_write f p = Inr f1 \<Longrightarrow> f1 = f\<lparr>files := (files f)(resolve f p \<mapsto> [])\<rparr>"
  by (auto simp: open_write_def Let_def split: if_splits)

lemma file_write_after_open:
  assumes "open_write f p = Inr f1"
  shows "file_write f1 p rendered =
           (if resolve f p \<in> write_faults f then Inl (OSError Errno_ENOSPC p)
            else Inr (f\<lparr>files := (files f)(resolve f p \<mapsto> rendered)\<rparr>))"
  unfolding open_write_Inr [OF assms] by (simp add: file_write_def resolve_def)

lemma write_alembic_ini_outcome:
  assumes "open_read f (ALEMBIC_INI_TEMPLATE_PATH here) = Inr (template_text segs)"
    and "list_all plain_segment segs"
    and "open_write f (case a of None \<Rightarrow> ''alembic.ini'' | Some p \<Rightarrow> p) = Inr f1"
  shows "write_alembic_ini here a d f =
           (if resolve f (case a of None \<Rightarrow> ''alembic.ini'' | Some p \<Rightarrow> p) \<in> write_faults f
            then (Inl (OSError Errno_ENOSPC (case a of None \<Rightarrow> ''alembic.ini'' | Some p \<Rightarrow> p)),
                  f1)
            else (Inr (), f\<lparr>files := (files f)
                    (resolve f (case a of None \<Rightarrow> ''alembic.ini'' | Some p \<Rightarrow> p) \<mapsto>
                     fill segs (ALEMBIC_DIR here)
                       (case d of None \<Rightarrow> ''sqlite:///gradebook.db'' | Some u \<Rightarrow> u))\<rparr>))"
  using assms(1,3) file_write_after_open [OF assms(3)]
    str_format_segments [OF assms(2), of "ALEMBIC_DIR here"
      "case d of None \<Rightarrow> ''sqlite:///gradebook.db'' | Some u \<Rightarrow> u"]
  by (simp add: write_alembic_ini_def)

lemma write_alembic_ini_success:
  assumes "open_read f (ALEMBIC_INI_TEMPLATE_PATH here) = Inr (template_text segs)"
    and "list_all plain_segment segs"
    and "open_write f (case a of None \<Rightarrow> ''alembic.ini'' | Some p \<Rightarrow> p) = Inr f1"
    and "resolve f (case a of None \<Rightarrow> ''alembic.ini'' | Some p \<Rightarrow> p) \<notin> write_faults f"
  shows "write_alembic_ini here a d f =
           (Inr (), f\<lparr>files := (files f)
              (resolve f (case a of None \<Rightarrow> ''alembic.ini'' | Some p \<Rightarrow> p) \<mapsto>
               fill segs (ALEMBIC_DIR here)
                 (case d of None \<Rightarrow> ''sqlite:///gradebook.db'' | Some u \<Rightarrow> u))\<rparr>)"
  using write_alembic_ini_outcome [OF assms(1,2,3), of d] assms(4) by simp

lemma demo_read:
  "open_read demo_fs (ALEMBIC_INI_TEMPLATE_PATH demo_here) = Inr (template_text demo_segs)"
  by (simp add: open_read_def ALEMBIC_INI_TEMPLATE_PATH_def demo_here_def demo_fs_def
      resolve_def os_path_join_def isabs_def)

lemma demo_plain: "list_all plain_segment demo_segs"
  by (simp add: demo_segs_def brace_free_def)

lemma demo_open:
  "open_write demo_fs ''/tmp/x/alembic.ini''
     = Inr (demo_fs\<lparr>files := (files demo_fs)(''/tmp/x/alembic.ini'' \<mapsto> [])\<rparr>)"
  by (simp add: open_write_def resolve_def isabs_def dirname_def demo_fs_def)

lemma demo_resolve: "resolve demo_fs ''/tmp/x/alembic.ini'' = ''/tmp/x/alembic.ini''"
  by (simp add: resolve_def isabs_def)

lemma demo_no_fault: "resolve demo_fs ''/tmp/x/alembic.ini'' \<notin> write_faults demo_fs"
  by (simp add: demo_fs_def)

text \<open>
  Claim C1. Whenever the template can be read and the target can be opened for writing,
  the write decides the outcome. When it does not fail (the device is not full),
  \<open>write_alembic_ini\<close> succeeds, and the only change to the file system is that the
  target path now holds the text of the template with every placeholder replaced, by
  \<open>ALEMBIC_DIR\<close> and by \<open>db_url\<close>, and all other text as it was; when it fails, its
  error is raised and the target is left as \<^verbatim>\<open>open\<close> made it. This holds for every
  \<open>db_url\<close> (braces in it are not interpreted) and every target path; what was stored
  at the target before is gone.
\<close>

theorem write_alembic_ini_fills_template:
  assumes "open_read f (ALEMBIC_INI_TEMPLATE_PATH here) = Inr (template_text segs)"
    and "list_all plain_segment segs"
    and "open_write f alembic_ini = Inr f1"
  shows "write_alembic_ini here (Some alembic_ini) (Some db_url) f =
           (if resolve f alembic_ini \<in> write_faults f
            then (Inl (OSError Errno_ENOSPC alembic_ini), f1)
            else (Inr (), f\<lparr>files := (files f)(resolve f alembic_ini \<mapsto>
                                       fill segs (ALEMBIC_DIR here) db_url)\<rparr>))"
  using write_alembic_ini_outcome [of f here segs "Some alembic_ini" f1 "Some db_url"] assms
  by simp

theorem write_alembic_ini_fills_template_witness:
  "open_read demo_fs (ALEMBIC_INI_TEMPLATE_PATH demo_here) = Inr (template_text demo_segs) \<and>
   list_all plain_segment demo_segs \<and>
   open_write demo_fs ''/tmp/x/alembic.ini''
     = Inr (demo_fs\<lparr>files := (files demo_fs)(''/tmp/x/alembic.ini'' \<mapsto> [])\<rparr>) \<and>
   resolve demo_fs ''/tmp/x/alembic.ini'' \<notin> write_faults demo_fs \<and>
   files demo_fs ''/tmp/x/alembic.ini'' = Some ''stale'' \<and>
   write_alembic_ini demo_here (Some ''/tmp/x/alembic.ini'') (Some ''sqlite:///g.db'') demo_fs =
     (Inr (), demo_fs\<lparr>files := (files demo_fs)(''/tmp/x/alembic.ini'' \<mapsto>
        ''[alembic]'' @ [CHR 0x0A] @ ''script_location = /opt/nbgrader/alembic'' @ [CHR 0x0A] @
        ''sqlalchemy.url = sqlite:///g.db'' @ [CHR 0x0A])\<rparr>)"
proof -
  have d: "fill demo_segs (ALEMBIC_DIR demo_here) ''sqlite:///g.db'' =
        ''[alembic]'' @ [CHR 0x0A] @ ''script_location = /opt/nbgrader/alembic'' @ [CHR 0x0A] @
        ''sqlalchemy.url = sqlite:///g.db'' @ [CHR 0x0A]"
    by (simp add: demo_segs_def ALEMBIC_DIR_def demo_here_def os_path_join_def isabs_def)
  have s: "files demo_fs ''/tmp/x/alembic.ini'' = Some ''stale''"
    by (simp add: demo_fs_def)
  have "write_alembic_ini demo_here (Some ''/tmp/x/alembic.ini'') (Some ''sqlite:///g.db'') demo_fs =
     (Inr (), demo_fs\<lparr>files := (files demo_fs)(''/tmp/x/alembic.ini'' \<mapsto>
        ''[alembic]'' @ [CHR 0x0A] @ ''script_location = /opt/nbgrader/alembic'' @ [CHR 0x0A] @
        ''sqlalchemy.url = sqlite:///g.db'' @ [CHR 0x0A])\<rparr>)"
    using write_alembic_ini_fills_template
      [OF demo_read demo_plain demo_open, of "''sqlite:///g.db''"] demo_no_fault
    by (simp only: demo_resolve d if_False)
  with demo_read demo_plain demo_open demo_no_fault s show ?thesis by (intro conjI)
qed

text \<open>
  Claim C5. \<open>write_alembic_ini\<close> does input and output in three places, in this order:
  it reads the template (\<open>open_read\<close>: opening and reading), it opens the target for
  writing (\<open>open_write\<close>), and, after formatting, it writes the text and closes the
  target (\<open>file_write\<close>). Whichever of them raises first, \<open>write_alembic_ini\<close> raises
  that very exception and does nothing more: nothing is tried again and nothing is
  written elsewhere; the file system is as it was, but that a target that was opened
  already stays truncated. Conversely, every \<open>OSError\<close> that \<open>write_alembic_ini\<close>
  raises is the one of the read, of the open or of the write: formatting raises no
  \<open>OSError\<close>.
\<close>

theorem write_alembic_ini_io_errors:
  "(open_read f (ALEMBIC_INI_TEMPLATE_PATH here) = Inl e \<longrightarrow>
      write_alembic_ini here (Some alembic_ini) (Some db_url) f = (Inl e, f)) \<and>
   (\<forall>tpl. open_read f (ALEMBIC_INI_TEMPLATE_PATH here) = Inr tpl \<longrightarrow>
      open_write f alembic_ini = Inl e \<longrightarrow>
      write_alembic_ini here (Some alembic_ini) (Some db_url) f = (Inl e, f)) \<and>
   (\<forall>tpl f1 rendered.
      open_read f (ALEMBIC_INI_TEMPLATE_PATH here) = Inr tpl \<longrightarrow>
      open_write f alembic_ini = Inr f1 \<longrightarrow>
      str_format tpl [(''alembic_dir'', ALEMBIC_DIR here), (''db_url'', db_url)] = Inr rendered \<longrightarrow>
      file_write f1 alembic_ini rendered = Inl e \<longrightarrow>
      write_alembic_ini here (Some alembic_ini) (Some db_url) f = (Inl e, f1)) \<and>
   (fst (write_alembic_ini here (Some alembic_ini) (Some db_url) f) = Inl (OSError k x) \<longrightarrow>
      open_read f (ALEMBIC_INI_TEMPLATE_PATH here) = Inl (OSError k x) \<or>
      (\<exists>tpl. open_read f (ALEMBIC_INI_TEMPLATE_PATH here) = Inr tpl \<and>
         (open_write f alembic_ini = Inl (OSError k x) \<or>
          (\<exists>f1 rendered.
             open_write f alembic_ini = Inr f1 \<and>
             str_format tpl [(''alembic_dir'', ALEMBIC_DIR here), (''db_url'', db_url)]
               = Inr rendered \<and>
             file_write f1 alembic_ini rendered = Inl (OSError k x)))))"
proof (intro conjI allI impI)
  assume "open_read f (ALEMBIC_INI_TEMPLATE_PATH here) = Inl e"
  then show "write_alembic_ini here (Some alembic_ini) (Some db_url) f = (Inl e, f)"
    by (simp add: write_alembic_ini_def)
next
  fix tpl
  assume "open_read f (ALEMBIC_INI_TEMPLATE_PATH here) = Inr tpl"
    and "open_write f alembic_ini = Inl e"
  then show "write_alembic_ini here (Some alembic_ini) (Some db_url) f = (Inl e, f)"
    by (simp add: write_alembic_ini_def)
next
  fix tpl f1 rendered
  assume "open_read f (ALEMBIC_INI_TEMPLATE_PATH here) = Inr tpl"
    and "open_write f alembic_ini = Inr f1"
    and "str_format tpl [(''alembic_dir'', ALEMBIC_DIR here), (''db_url'', db_url)] = Inr rendered"
    and "file_write f1 alembic_ini rendered = Inl e"
  then show "write_alembic_ini here (Some alembic_ini) (Some db_url) f = (Inl e, f1)"
    by (simp add: write_alembic_ini_def)
next
  let ?kw = "[(''alembic_dir'', ALEMBIC_DIR here), (''db_url'', db_url)]"
  assume raised:
    "fst (write_alembic_ini here (Some alembic_ini) (Some db_url) f) = Inl (OSError k x)"
  show "open_read f (ALEMBIC_INI_TEMPLATE_PATH here) = Inl (OSError k x) \<or>
      (\<exists>tpl. open_read f (ALEMBIC_INI_TEMPLATE_PATH here) = Inr tpl \<and>
         (open_write f alembic_ini = Inl (OSError k x) \<or>
          (\<exists>f1 rendered.
             open_write f alembic_ini = Inr f1 \<and>
             str_format tpl ?kw = Inr rendered \<and>
             file_write f1 alembic_ini rendered = Inl (OSError k x))))"
  proof (cases "open_read f (ALEMBIC_INI_TEMPLATE_PATH here)")
    case (Inl e')
    with raised show ?thesis by (simp add: write_alembic_ini_def)
  next
    case rd: (Inr tpl)
    show ?thesis
    proof (cases "open_write f alembic_ini")
      case (Inl e')
      with raised rd show ?thesis by (simp add: write_alembic_ini_def)
    next
      case ow: (Inr f1)
      show ?thesis
      proof (cases "str_format tpl ?kw")
        case (Inl e')
        with raised rd ow have "e' = OSError k x" by (simp add: write_alembic_ini_def)
        with Inl str_format_not_oserror [of tpl ?kw k x] show ?thesis by simp
      next
        case fm: (Inr rendered)
        show ?thesis
        proof (cases "file_write f1 alembic_ini rendered")
          case (Inl e')
          with raised rd ow fm have "e' = OSError k x" by (simp add: write_alembic_ini_def)
          with Inl rd ow fm show ?thesis by simp
        next
          case (Inr f2)
          with raised rd ow fm show ?thesis by (simp add: write_alembic_ini_def)
        qed
      qed
    qed
  qed
qed

lemma demo_read_full:
  "open_read demo_fs_full (ALEMBIC_INI_TEMPLATE_PATH demo_here) = Inr (template_text demo_segs)"
  by (simp add: open_read_def ALEMBIC_INI_TEMPLATE_PATH_def demo_here_def demo_fs_def
      demo_fs_full_def resolve_def os_path_join_def isabs_def)

lemma demo_open_full:
  "open_write demo_fs_full ''/tmp/x/alembic.ini''
     = Inr (demo_fs_full\<lparr>files := (files demo_fs_full)(''/tmp/x/alembic.ini'' \<mapsto> [])\<rparr>)"
  by (simp add: open_write_def resolve_def isabs_def dirname_def demo_fs_def demo_fs_full_def
      Let_def)

lemma demo_write_full:
  "file_write (demo_fs_full\<lparr>files := (files demo_fs_full)(''/tmp/x/alembic.ini'' \<mapsto> [])\<rparr>)
     ''/tmp/x/alembic.ini'' rendered = Inl (OSError Errno_ENOSPC ''/tmp/x/alembic.ini'')"
  by (simp add: file_write_def resolve_def isabs_def demo_fs_full_def)

theorem write_alembic_ini_io_errors_witness:
  "open_read demo_fs (ALEMBIC_INI_TEMPLATE_PATH ''/nowhere'')
     = Inl (OSError FileNotFoundError ''/nowhere/alembic.ini'') \<and>
   write_alembic_ini ''/nowhere'' (Some ''/tmp/x/alembic.ini'') (Some ''sqlite:///g.db'') demo_fs
     = (Inl (OSError FileNotFoundError ''/nowhere/alembic.ini''), demo_fs) \<and>
   open_read demo_fs (ALEMBIC_INI_TEMPLATE_PATH demo_here) = Inr (template_text demo_segs) \<and>
   open_write demo_fs ''/srv/alembic.ini'' = Inl (OSError FileNotFoundError ''/srv/alembic.ini'') \<and>
   write_alembic_ini demo_here (Some ''/srv/alembic.ini'') (Some ''sqlite:///g.db'') demo_fs
     = (Inl (OSError FileNotFoundError ''/srv/alembic.ini''), demo_fs) \<and>
   open_read demo_fs_full (ALEMBIC_INI_TEMPLATE_PATH demo_here)
     = Inr (template_text demo_segs) \<and>
   open_write demo_fs_full ''/tmp/x/alembic.ini''
     = Inr (demo_fs_full\<lparr>files := (files demo_fs_full)(''/tmp/x/alembic.ini'' \<mapsto> [])\<rparr>) \<and>
   write_alembic_ini demo_here (Some ''/tmp/x/alembic.ini'') (Some ''sqlite:///g.db'')
     demo_fs_full
     = (Inl (OSError Errno_ENOSPC ''/tmp/x/alembic.ini''),
        demo_fs_full\<lparr>files := (files demo_fs_full)(''/tmp/x/alembic.ini'' \<mapsto> [])\<rparr>)"
proof -
  have r: "open_read demo_fs (ALEMBIC_INI_TEMPLATE_PATH ''/nowhere'')
             = Inl (OSError FileNotFoundError ''/nowhere/alembic.ini'')"
    by (simp add: open_read_def ALEMBIC_INI_TEMPLATE_PATH_def demo_fs_def
        resolve_def os_path_join_def isabs_def)
  have w: "open_write demo_fs ''/srv/alembic.ini''
             = Inl (OSError FileNotFoundError ''/srv/alembic.ini'')"
    by (simp add: open_write_def parent_error_def resolve_def isabs_def dirname_def demo_fs_def)
  have fm: "str_format (template_text demo_segs)
              [(''alembic_dir'', ALEMBIC_DIR demo_here), (''db_url'', ''sqlite:///g.db'')]
            = Inr (fill demo_segs (ALEMBIC_DIR demo_here) ''sqlite:///g.db'')"
    by (rule str_format_segments [OF demo_plain])
  have a: "write_alembic_ini ''/nowhere'' (Some ''/tmp/x/alembic.ini'') (Some ''sqlite:///g.db'')
             demo_fs = (Inl (OSError FileNotFoundError ''/nowhere/alembic.ini''), demo_fs)"
    using write_alembic_ini_io_errors
        [of demo_fs "''/nowhere''" "OSError FileNotFoundError ''/nowhere/alembic.ini''"
            "''/tmp/x/alembic.ini''" "''sqlite:///g.db''"] r
    by blast
  have b: "write_alembic_ini demo_here (Some ''/srv/alembic.ini'') (Some ''sqlite:///g.db'')
             demo_fs = (Inl (OSError FileNotFoundError ''/srv/alembic.ini''), demo_fs)"
    using write_alembic_ini_io_errors
        [of demo_fs demo_here "OSError FileNotFoundError ''/srv/alembic.ini''"
            "''/srv/alembic.ini''" "''sqlite:///g.db''"] w demo_read
    by blast
  have c: "write_alembic_ini demo_here (Some ''/tmp/x/alembic.ini'') (Some ''sqlite:///g.db'')
     demo_fs_full
     = (Inl (OSError Errno_ENOSPC ''/tmp/x/alembic.ini''),
        demo_fs_full\<lparr>files := (files demo_fs_full)(''/tmp/x/alembic.ini'' \<mapsto> [])\<rparr>)"
    using write_alembic_ini_io_errors
        [of demo_fs_full demo_here "OSError Errno_ENOSPC ''/tmp/x/alembic.ini''"
            "''/tmp/x/alembic.ini''" "''sqlite:///g.db''"]
      demo_read_full demo_open_full fm demo_write_full
    by blast
  from r a demo_read w b demo_read_full demo_open_full c show ?thesis by (intro conjI)
qed

lemma demo_open_default:
  "open_write demo_fs ''alembic.ini''
     = Inr (demo_fs\<lparr>files := (files demo_fs)(''/home/u/alembic.ini'' \<mapsto> [])\<rparr>)"
  by (simp add: open_write_def resolve_def os_path_join_def isabs_def dirname_def demo_fs_def)

lemma demo_join_default: "os_path_join (cwd demo_fs) ''alembic.ini'' = ''/home/u/alembic.ini''"
  by (simp add: os_path_join_def isabs_def demo_fs_def)

text \<open>
  Claim C9. Both parameters of \<open>write_alembic_ini\<close> have defaults: the call without
  arguments is the call with the target \<^verbatim>\<open>alembic.ini\<close> and the URL
  \<^verbatim>\<open>sqlite:///gradebook.db\<close>. The target is a relative path, which is resolved against
  the working directory; so when the template can be read and the target can be opened,
  the file \<^verbatim>\<open>alembic.ini\<close> in the working directory receives the template filled with
  the default URL, unless the write fails.
\<close>

theorem write_alembic_ini_defaults:
  "write_alembic_ini here None None f =
     write_alembic_ini here (Some ''alembic.ini'') (Some ''sqlite:///gradebook.db'') f \<and>
   resolve f ''alembic.ini'' = os_path_join (cwd f) ''alembic.ini'' \<and>
   (open_read f (ALEMBIC_INI_TEMPLATE_PATH here) = Inr (template_text segs) \<longrightarrow>
    list_all plain_segment segs \<longrightarrow>
    open_write f ''alembic.ini'' = Inr f1 \<longrightarrow>
    write_alembic_ini here None None f =
      (if os_path_join (cwd f) ''alembic.ini'' \<in> write_faults f
       then (Inl (OSError Errno_ENOSPC ''alembic.ini''), f1)
       else (Inr (), f\<lparr>files := (files f)(os_path_join (cwd f) ''alembic.ini'' \<mapsto>
                     fill segs (ALEMBIC_DIR here) ''sqlite:///gradebook.db'')\<rparr>)))"
proof (intro conjI impI)
  show "write_alembic_ini here None None f =
     write_alembic_ini here (Some ''alembic.ini'') (Some ''sqlite:///gradebook.db'') f"
    by (simp add: write_alembic_ini_def)
  show r: "resolve f ''alembic.ini'' = os_path_join (cwd f) ''alembic.ini''"
    by (simp add: resolve_def isabs_def)
  assume "open_read f (ALEMBIC_INI_TEMPLATE_PATH here) = Inr (template_text segs)"
    and "list_all plain_segment segs" and "open_write f ''alembic.ini'' = Inr f1"
  then show "write_alembic_ini here None None f =
      (if os_path_join (cwd f) ''alembic.ini'' \<in> write_faults f
       then (Inl (OSError Errno_ENOSPC ''alembic.ini''), f1)
       else (Inr (), f\<lparr>files := (files f)(os_path_join (cwd f) ''alembic.ini'' \<mapsto>
                     fill segs (ALEMBIC_DIR here) ''sqlite:///gradebook.db'')\<rparr>))"
    using write_alembic_ini_outcome [of f here segs None f1 None] r by simp
qed

theorem write_alembic_ini_defaults_witness:
  "open_read demo_fs (ALEMBIC_INI_TEMPLATE_PATH demo_here) = Inr (template_text demo_segs) \<and>
   list_all plain_segment demo_segs \<and>
   open_write demo_fs ''alembic.ini''
     = Inr (demo_fs\<lparr>files := (files demo_fs)(''/home/u/alembic.ini'' \<mapsto> [])\<rparr>) \<and>
   os_path_join (cwd demo_fs) ''alembic.ini'' \<notin> write_faults demo_fs \<and>
   write_alembic_ini demo_here None None demo_fs =
     (Inr (), demo_fs\<lparr>files := (files demo_fs)(''/home/u/alembic.ini'' \<mapsto>
        ''[alembic]'' @ [CHR 0x0A] @ ''script_location = /opt/nbgrader/alembic'' @ [CHR 0x0A] @
        ''sqlalchemy.url = sqlite:///gradebook.db'' @ [CHR 0x0A])\<rparr>)"
proof -
  have n: "os_path_join (cwd demo_fs) ''alembic.ini'' \<notin> write_faults demo_fs"
    by (simp add: demo_fs_def)
  have d: "fill demo_segs (ALEMBIC_DIR demo_here) ''sqlite:///gradebook.db'' =
        ''[alembic]'' @ [CHR 0x0A] @ ''script_location = /opt/nbgrader/alembic'' @ [CHR 0x0A] @
        ''sqlalchemy.url = sqlite:///gradebook.db'' @ [CHR 0x0A]"
    by (simp add: demo_segs_def ALEMBIC_DIR_def demo_here_def os_path_join_def isabs_def)
  have "write_alembic_ini demo_here None None demo_fs =
      (if os_path_join (cwd demo_fs) ''alembic.ini'' \<in> write_faults demo_fs
       then (Inl (OSError Errno_ENOSPC ''alembic.ini''),
             demo_fs\<lparr>files := (files demo_fs)(''/home/u/alembic.ini'' \<mapsto> [])\<rparr>)
       else (Inr (), demo_fs\<lparr>files := (files demo_fs)(os_path_join (cwd demo_fs) ''alembic.ini'' \<mapsto>
                   fill demo_segs (ALEMBIC_DIR demo_here) ''sqlite:///gradebook.db'')\<rparr>))"
    using write_alembic_ini_defaults
        [of demo_here demo_fs demo_segs
            "demo_fs\<lparr>files := (files demo_fs)(''/home/u/alembic.ini'' \<mapsto> [])\<rparr>"]
      demo_read demo_plain demo_open_default
    by blast
  with n have "write_alembic_ini demo_here None None demo_fs =
      (Inr (), demo_fs\<lparr>files := (files demo_fs)(os_path_join (cwd demo_fs) ''alembic.ini'' \<mapsto>
                   fill demo_segs (ALEMBIC_DIR demo_here) ''sqlite:///gradebook.db'')\<rparr>)"
    by (simp only: if_False)
  then have "write_alembic_ini demo_here None None demo_fs =
     (Inr (), demo_fs\<lparr>files := (files demo_fs)(''/home/u/alembic.ini'' \<mapsto>
        ''[alembic]'' @ [CHR 0x0A] @ ''script_location = /opt/nbgrader/alembic'' @ [CHR 0x0A] @
        ''sqlalchemy.url = sqlite:///gradebook.db'' @ [CHR 0x0A])\<rparr>)"
    by (simp only: demo_join_default d)
  with demo_read demo_plain demo_open_default n show ?thesis by (intro conjI)
qed

subsection \<open>The file system operations\<close>

lemma resolve_abs: "isabs p \<Longrightarrow> resolve f p = p"
  by (simp add: resolve_def)

lemma os_mkdir_Inr:
  assumes "os_mkdir f p = Inr f1"
  shows "f1 = f\<lparr>dirs := insert (resolve f p) (dirs f)\<rparr>"
    and "resolve f p \<notin> dirs f" and "files f (resolve f p) = None"
    and "resolve f p \<notin> write_denied f"
  using assms by (auto simp: os_mkdir_def Let_def split: if_splits)

lemma mkdtemp_try_Inr:
  "mkdtemp_try names f = (Inr td, f1) \<Longrightarrow>
     resolve f td \<notin> dirs f \<and> files f (resolve f td) = None \<and>
     dirs f1 = insert (resolve f td) (dirs f) \<and> files f1 = files f \<and>
     cwd f1 = cwd f \<and> write_denied f1 = write_denied f \<and>
     resolve f td \<notin> write_denied f \<and>
     (\<exists>name. td = os_path_join (gettempdir f) (''tmp'' @ name))"
proof (induction names arbitrary: f)
  case Nil
  then show ?case by simp
next
  case (Cons name names)
  let ?file = "os_path_join (gettempdir f) (''tmp'' @ name)"
  let ?f0 = "f\<lparr>tmp_names := names\<rparr>"
  have r0: "resolve ?f0 = resolve f" by (simp add: resolve_def fun_eq_iff)
  have g0: "gettempdir ?f0 = gettempdir f" by (simp add: gettempdir_def)
  show ?case
  proof (cases "os_mkdir ?f0 ?file")
    case (Inr g)
    with Cons.prems have td: "td = ?file" and g: "f1 = g" by (simp_all add: Let_def)
    from os_mkdir_Inr [OF Inr] show ?thesis
      unfolding td g r0 by auto
  next
    case (Inl e)
    show ?thesis
    proof (cases "e = OSError FileExistsError ?file")
      case True
      with Inl Cons.prems have "mkdtemp_try names ?f0 = (Inr td, f1)" by (simp add: Let_def)
      from Cons.IH [OF this] show ?thesis unfolding r0 g0 by simp
    next
      case False
      with Inl Cons.prems show ?thesis by (simp add: Let_def)
    qed
  qed
qed

lemma mkdtemp_Inr:
  assumes "mkdtemp f = (Inr td, f1)"
  shows "resolve f td \<notin> dirs f" and "files f (resolve f td) = None"
    and "dirs f1 = insert (resolve f td) (dirs f)" and "files f1 = files f"
    and "cwd f1 = cwd f" and "write_denied f1 = write_denied f"
    and "resolve f td \<notin> write_denied f"
    and "\<exists>name. td = os_path_join (gettempdir f) (''tmp'' @ name)"
  using mkdtemp_try_Inr [of "tmp_names f" f td f1] assms
  by (simp_all add: mkdtemp_def)

lemma join_tmp_nonempty: "os_path_join a (''tmp'' @ name) \<noteq> []"
  by (simp add: os_path_join_def isabs_def)

lemma join_tmp_isabs: "isabs (os_path_join (gettempdir f) (''tmp'' @ name))"
  by (simp add: os_path_join_def isabs_def gettempdir_def)

lemma mkdtemp_nonempty: "mkdtemp f = (Inr td, f1) \<Longrightarrow> td \<noteq> []"
  using mkdtemp_Inr(8) [of f td f1] join_tmp_nonempty by auto

lemma mkdtemp_isabs: "mkdtemp f = (Inr td, f1) \<Longrightarrow> isabs td"
  using mkdtemp_Inr(8) [of f td f1] join_tmp_isabs by auto

lemma write_alembic_ini_frame:
  assumes "write_alembic_ini here a d f = (r, f2)"
  shows "dirs f2 = dirs f" and "cwd f2 = cwd f" and "write_denied f2 = write_denied f"
proof -
  let ?p = "case a of None \<Rightarrow> ''alembic.ini'' | Some p \<Rightarrow> p"
  have "dirs f2 = dirs f \<and> cwd f2 = cwd f \<and> write_denied f2 = write_denied f"
  proof (cases "open_read f (ALEMBIC_INI_TEMPLATE_PATH here)")
    case (Inl e)
    with assms show ?thesis by (simp add: write_alembic_ini_def)
  next
    case rd: (Inr tpl)
    show ?thesis
    proof (cases "open_write f ?p")
      case (Inl e)
      with assms rd show ?thesis by (simp add: write_alembic_ini_def)
    next
      case (Inr f1)
      from open_write_Inr [OF Inr]
      have f1: "dirs f1 = dirs f" "cwd f1 = cwd f" "write_denied f1 = write_denied f"
        by simp_all
      let ?kw = "[(''alembic_dir'', ALEMBIC_DIR here),
                  (''db_url'', case d of None \<Rightarrow> ''sqlite:///gradebook.db'' | Some u \<Rightarrow> u)]"
      show ?thesis
      proof (cases "str_format tpl ?kw")
        case (Inl e)
        with assms rd Inr have "f2 = f1" by (simp add: write_alembic_ini_def)
        with f1 show ?thesis by simp
      next
        case fm: (Inr rendered)
        show ?thesis
        proof (cases "file_write f1 ?p rendered")
          case (Inl e)
          with assms rd Inr fm have "f2 = f1" by (simp add: write_alembic_ini_def)
          with f1 show ?thesis by simp
        next
          case fw: (Inr g)
          with assms rd Inr fm have "f2 = g" by (simp add: write_alembic_ini_def)
          moreover from fw have "dirs g = dirs f1 \<and> cwd g = cwd f1 \<and>
              write_denied g = write_denied f1"
            by (auto simp: file_write_def Let_def split: if_splits)
          ultimately show ?thesis using f1 by simp
        qed
      qed
    qed
  qed
  then show "dirs f2 = dirs f" and "cwd f2 = cwd f" and "write_denied f2 = write_denied f"
    by simp_all
qed

lemma write_alembic_ini_Inr:
  assumes "write_alembic_ini here (Some p) (Some u) f = (Inr (), f2)"
  shows "\<exists>tpl rendered.
           open_read f (ALEMBIC_INI_TEMPLATE_PATH here) = Inr tpl \<and>
           str_format tpl [(''alembic_dir'', ALEMBIC_DIR here), (''db_url'', u)] = Inr rendered \<and>
           files f2 (resolve f2 p) = Some rendered"
proof (cases "open_read f (ALEMBIC_INI_TEMPLATE_PATH here)")
  case (Inl e)
  with assms show ?thesis by (simp add: write_alembic_ini_def)
next
  case rd: (Inr tpl)
  show ?thesis
  proof (cases "open_write f p")
    case (Inl e)
    with assms rd show ?thesis by (simp add: write_alembic_ini_def)
  next
    case ow: (Inr f1)
    show ?thesis
    proof (cases "str_format tpl [(''alembic_dir'', ALEMBIC_DIR here), (''db_url'', u)]")
      case (Inl e)
      with assms rd ow show ?thesis by (simp add: write_alembic_ini_def)
    next
      case fm: (Inr rendered)
      show ?thesis
      proof (cases "file_write f1 p rendered")
        case (Inl e)
        with assms rd ow fm show ?thesis by (simp add: write_alembic_ini_def)
      next
        case fw: (Inr g)
        with assms rd ow fm have f2: "f2 = g" by (simp add: write_alembic_ini_def)
        from fw have "files g (resolve g p) = Some rendered"
          by (auto simp: file_write_def Let_def resolve_def split: if_splits)
        with rd fm f2 show ?thesis by simp
      qed
    qed
  qed
qed

lemma rmtree_Inr:
  assumes "rmtree f p = (Inr (), f4)"
  shows "resolve f p \<notin> dirs f4" and "cwd f4 = cwd f"
    and "inside (resolve f p) x \<Longrightarrow> files f4 x = None \<and> x \<notin> dirs f4"
  using assms by (auto simp: rmtree_def Let_def split: if_splits)

lemma rmtree_ok:
  "resolve f p \<in> dirs f \<Longrightarrow> resolve f p \<notin> write_denied f \<Longrightarrow> fst (rmtree f p) = Inr ()"
  by (simp add: rmtree_def Let_def)

lemma rmtree_absent:
  "resolve f p \<notin> dirs f \<Longrightarrow> files f (resolve f p) = None \<Longrightarrow>
   rmtree f p = (Inl (OSError FileNotFoundError p), f)"
  by (simp add: rmtree_def Let_def)

lemma inside_join:
  "d \<noteq> [] \<Longrightarrow> \<not> isabs b \<Longrightarrow> b \<noteq> [] \<Longrightarrow> inside d (os_path_join d b)"
  by (auto simp: inside_def os_path_join_def Let_def)

lemma temp_alembic_ini_run:
  assumes "mkdtemp (fsys w) = (Inr td, f1)"
    and "write_alembic_ini here (Some (os_path_join td ''alembic.ini'')) (Some db_url) f1
           = (Inr (), f2)"
  shows "temp_alembic_ini here db_url body w =
           (case body (os_path_join td ''alembic.ini'') (w\<lparr>fsys := f2\<rparr>) of
              (r, w3) \<Rightarrow>
                (case rmtree (fsys w3) td of
                   (Inl e, f4) \<Rightarrow> (Inl e, w3\<lparr>fsys := f4\<rparr>)
                 | (Inr _, f4) \<Rightarrow> (r, w3\<lparr>fsys := f4\<rparr>)))"
  using assms by (simp add: temp_alembic_ini_def Let_def)

lemma demo_mkdtemp: "mkdtemp (fsys demo_world) = (Inr demo_td, demo_fs1)"
  by (simp add: demo_world_def mkdtemp_def demo_fs_def demo_fs1_def demo_td_def Let_def
      os_mkdir_def resolve_def os_path_join_def isabs_def dirname_def gettempdir_def)

lemma demo_join: "os_path_join demo_td ''alembic.ini'' = demo_ini"
  by (simp add: demo_td_def demo_ini_def os_path_join_def isabs_def)

lemma demo_read1:
  "open_read demo_fs1 (ALEMBIC_INI_TEMPLATE_PATH demo_here) = Inr (template_text demo_segs)"
  by (simp add: open_read_def ALEMBIC_INI_TEMPLATE_PATH_def demo_here_def demo_fs_def
      demo_fs1_def demo_td_def resolve_def os_path_join_def isabs_def)

lemma demo_open1:
  "open_write demo_fs1 demo_ini = Inr (demo_fs1\<lparr>files := (files demo_fs1)(demo_ini \<mapsto> [])\<rparr>)"
  by (simp add: open_write_def demo_fs_def demo_fs1_def demo_td_def demo_ini_def
      resolve_def isabs_def dirname_def)

lemma demo_alembic_dir: "ALEMBIC_DIR demo_here = ''/opt/nbgrader/alembic''"
  by (simp add: ALEMBIC_DIR_def demo_here_def os_path_join_def isabs_def)

lemma demo_write:
  "write_alembic_ini demo_here (Some (os_path_join demo_td ''alembic.ini'')) (Some url) demo_fs1
     = (Inr (), demo_fs2 url)"
proof -
  have r: "resolve demo_fs1 demo_ini = demo_ini"
    by (simp add: resolve_def isabs_def demo_ini_def)
  have n: "demo_ini \<notin> write_faults demo_fs1"
    by (simp add: demo_fs1_def demo_fs_def)
  show ?thesis
    using write_alembic_ini_success [of demo_fs1 demo_here demo_segs "Some demo_ini" _ "Some url"]
      demo_read1 demo_plain demo_open1 n
    by (simp add: demo_join demo_fs2_def r demo_alembic_dir)
qed


lemma demo_td_in_fs2: "demo_td \<in> dirs (demo_fs2 url)" "demo_td \<notin> write_denied (demo_fs2 url)"
  by (simp_all add: demo_fs2_def demo_fs1_def demo_fs_def)

lemma demo_td_abs: "resolve f demo_td = demo_td"
  by (simp add: resolve_def isabs_def demo_td_def)

subsection \<open>The Scoped Temporary Configuration\<close>

text \<open>
  Claim C7. When \<open>mkdtemp\<close> has created the directory \<open>td\<close> and the Configuration
  Writer has succeeded for \<open>db_url\<close>, the body is applied to the path
  \<open>os_path_join td ''alembic.ini''\<close> in the state the writer left behind. The directory is
  fresh (neither a directory nor a file had its path before the call), it exists when the
  body starts, the path lies inside it, and the file at the path holds the template
  formatted with \<open>ALEMBIC_DIR\<close> and \<open>db_url\<close>.
\<close>

theorem temp_alembic_ini_yields_generated_file:
  assumes mk: "mkdtemp (fsys w) = (Inr td, f1)"
    and wr: "write_alembic_ini here (Some (os_path_join td ''alembic.ini'')) (Some db_url) f1
               = (Inr (), f2)"
  shows "temp_alembic_ini here db_url body w =
           (case body (os_path_join td ''alembic.ini'') (w\<lparr>fsys := f2\<rparr>) of
              (r, w3) \<Rightarrow>
                (case rmtree (fsys w3) td of
                   (Inl e, f4) \<Rightarrow> (Inl e, w3\<lparr>fsys := f4\<rparr>)
                 | (Inr _, f4) \<Rightarrow> (r, w3\<lparr>fsys := f4\<rparr>))) \<and>
         resolve (fsys w) td \<notin> dirs (fsys w) \<and>
         files (fsys w) (resolve (fsys w) td) = None \<and>
         resolve f2 td \<in> dirs f2 \<and>
         inside td (os_path_join td ''alembic.ini'') \<and>
         (\<exists>tpl rendered.
            open_read f1 (ALEMBIC_INI_TEMPLATE_PATH here) = Inr tpl \<and>
            str_format tpl [(''alembic_dir'', ALEMBIC_DIR here), (''db_url'', db_url)]
              = Inr rendered \<and>
            files f2 (resolve f2 (os_path_join td ''alembic.ini'')) = Some rendered)"
proof (intro conjI)
  show "temp_alembic_ini here db_url body w =
           (case body (os_path_join td ''alembic.ini'') (w\<lparr>fsys := f2\<rparr>) of
              (r, w3) \<Rightarrow>
                (case rmtree (fsys w3) td of
                   (Inl e, f4) \<Rightarrow> (Inl e, w3\<lparr>fsys := f4\<rparr>)
                 | (Inr _, f4) \<Rightarrow> (r, w3\<lparr>fsys := f4\<rparr>)))"
    by (rule temp_alembic_ini_run [OF mk wr])
  show "resolve (fsys w) td \<notin> dirs (fsys w)" by (rule mkdtemp_Inr(1) [OF mk])
  show "files (fsys w) (resolve (fsys w) td) = None" by (rule mkdtemp_Inr(2) [OF mk])
  have "resolve f2 td = resolve (fsys w) td"
    using write_alembic_ini_frame(2) [OF wr] mkdtemp_Inr(5) [OF mk] by (simp add: resolve_def)
  then show "resolve f2 td \<in> dirs f2"
    using write_alembic_ini_frame(1) [OF wr] mkdtemp_Inr(3) [OF mk] by simp
  show "inside td (os_path_join td ''alembic.ini'')"
    by (rule inside_join [OF mkdtemp_nonempty [OF mk]]) (simp_all add: isabs_def)
  show "\<exists>tpl rendered.
            open_read f1 (ALEMBIC_INI_TEMPLATE_PATH here) = Inr tpl \<and>
            str_format tpl [(''alembic_dir'', ALEMBIC_DIR here), (''db_url'', db_url)]
              = Inr rendered \<and>
            files f2 (resolve f2 (os_path_join td ''alembic.ini'')) = Some rendered"
    by (rule write_alembic_ini_Inr [OF wr])
qed

theorem temp_alembic_ini_yields_generated_file_witness:
  "mkdtemp (fsys demo_world) = (Inr demo_td, demo_fs1) \<and>
   write_alembic_ini demo_here (Some (os_path_join demo_td ''alembic.ini''))
     (Some ''sqlite:///g.db'') demo_fs1 = (Inr (), demo_fs2 ''sqlite:///g.db'') \<and>
   resolve (fsys demo_world) demo_td \<notin> dirs (fsys demo_world) \<and>
   resolve (demo_fs2 ''sqlite:///g.db'') demo_td \<in> dirs (demo_fs2 ''sqlite:///g.db'') \<and>
   inside demo_td (os_path_join demo_td ''alembic.ini'')"
  using temp_alembic_ini_yields_generated_file
      [OF demo_mkdtemp demo_write, of "''sqlite:///g.db''" "\<lambda>p w. (Inr (), w)"]
    demo_mkdtemp demo_write [of "''sqlite:///g.db''"]
  by blast

text \<open>
  Claim C2, as it is stated, fails: the removal itself can fail. An operation that
  returns normally after it has taken away the permission to change the temporary
  directory makes \<open>rmtree\<close> raise \<^verbatim>\<open>PermissionError\<close> in the \<^verbatim>\<open>finally\<close> clause:
  the scope raises that error, and the directory, which did not exist before the scope was
  entered, exists after the scope has been left.
\<close>

theorem temp_alembic_ini_removal_fails:
  "''/tmp/tmpzk31m_x7'' \<notin> dirs (fsys demo_world) \<and>
   fst (temp_alembic_ini demo_here ''sqlite:///g.db'' demo_protect demo_world) =
     Inl (OSError PermissionError ''/tmp/tmpzk31m_x7'') \<and>
   ''/tmp/tmpzk31m_x7'' \<in>
     dirs (fsys (snd (temp_alembic_ini demo_here ''sqlite:///g.db'' demo_protect demo_world)))"
proof -
  let ?f2 = "demo_fs2 ''sqlite:///g.db''"
  let ?f3 = "?f2\<lparr>write_denied := insert demo_td (write_denied ?f2)\<rparr>"
  have d: "dirname demo_ini = demo_td"
    by (simp add: dirname_def demo_ini_def demo_td_def)
  have body: "demo_protect (os_path_join demo_td ''alembic.ini'') (demo_world\<lparr>fsys := ?f2\<rparr>) =
                (Inr (), demo_world\<lparr>fsys := ?f3\<rparr>)"
    by (simp add: demo_protect_def demo_join d)
  have rm: "rmtree ?f3 demo_td = (Inl (OSError PermissionError demo_td), ?f3)"
    using demo_td_in_fs2(1) [of "''sqlite:///g.db''"]
    by (simp add: rmtree_def Let_def demo_td_abs)
  have "temp_alembic_ini demo_here ''sqlite:///g.db'' demo_protect demo_world =
          (Inl (OSError PermissionError demo_td), demo_world\<lparr>fsys := ?f3\<rparr>)"
    unfolding temp_alembic_ini_run [OF demo_mkdtemp demo_write] body by (simp add: rm)
  moreover have "demo_td \<in> dirs ?f3"
    using demo_td_in_fs2(1) [of "''sqlite:///g.db''"] by simp
  moreover have "demo_td \<notin> dirs (fsys demo_world)"
    by (simp add: demo_world_def demo_fs_def demo_td_def)
  ultimately show ?thesis by (simp add: demo_td_def)
qed

text \<open>
  Claim C2, amended. Let \<open>mkdtemp\<close> have created the directory \<open>td\<close>, let the
  configuration be written, and let the body, run on it, end with the result \<open>r\<close>, a
  value or an exception, in the state \<open>w3\<close>. The directory did not exist before and
  exists when the body starts. On the way out \<open>rmtree\<close> is applied to \<open>td\<close> in the
  state the body left, whatever \<open>r\<close> is. When it succeeds, \<open>td\<close> is no directory any
  more, nothing is left below it, and the result of the scope is \<open>r\<close>. When it raises,
  the scope raises the exception of \<open>rmtree\<close> in place of \<open>r\<close>.
\<close>

theorem temp_alembic_ini_removes_directory:
  assumes mk: "mkdtemp (fsys w) = (Inr td, f1)"
    and wr: "write_alembic_ini here (Some (os_path_join td ''alembic.ini'')) (Some db_url) f1
               = (Inr (), f2)"
    and bd: "body (os_path_join td ''alembic.ini'') (w\<lparr>fsys := f2\<rparr>) = (r, w3)"
  shows "td \<notin> dirs (fsys w) \<and> td \<in> dirs f2 \<and>
         (\<forall>f4. rmtree (fsys w3) td = (Inr (), f4) \<longrightarrow>
            temp_alembic_ini here db_url body w = (r, w3\<lparr>fsys := f4\<rparr>) \<and>
            td \<notin> dirs f4 \<and>
            (\<forall>p. inside td p \<longrightarrow> files f4 p = None \<and> p \<notin> dirs f4)) \<and>
         (\<forall>e f4. rmtree (fsys w3) td = (Inl e, f4) \<longrightarrow>
            temp_alembic_ini here db_url body w = (Inl e, w3\<lparr>fsys := f4\<rparr>))"
proof -
  have abs: "\<And>g. resolve g td = td"
    by (rule resolve_abs [OF mkdtemp_isabs [OF mk]])
  have run: "temp_alembic_ini here db_url body w =
               (case rmtree (fsys w3) td of
                  (Inl e, f4) \<Rightarrow> (Inl e, w3\<lparr>fsys := f4\<rparr>)
                | (Inr _, f4) \<Rightarrow> (r, w3\<lparr>fsys := f4\<rparr>))"
    unfolding temp_alembic_ini_run [OF mk wr] bd by simp
  have fresh: "td \<notin> dirs (fsys w)"
    using mkdtemp_Inr(1) [OF mk] by (simp add: abs)
  have there: "td \<in> dirs f2"
    using write_alembic_ini_frame(1) [OF wr] mkdtemp_Inr(3) [OF mk] by (simp add: abs)
  have ok: "\<forall>f4. rmtree (fsys w3) td = (Inr (), f4) \<longrightarrow>
            temp_alembic_ini here db_url body w = (r, w3\<lparr>fsys := f4\<rparr>) \<and>
            td \<notin> dirs f4 \<and>
            (\<forall>p. inside td p \<longrightarrow> files f4 p = None \<and> p \<notin> dirs f4)"
  proof (intro allI impI)
    fix f4
    assume rm: "rmtree (fsys w3) td = (Inr (), f4)"
    show "temp_alembic_ini here db_url body w = (r, w3\<lparr>fsys := f4\<rparr>) \<and>
            td \<notin> dirs f4 \<and>
            (\<forall>p. inside td p \<longrightarrow> files f4 p = None \<and> p \<notin> dirs f4)"
      using rmtree_Inr(1) [OF rm] rmtree_Inr(3) [OF rm]
      by (simp add: run rm abs)
  qed
  have bad: "\<forall>e f4. rmtree (fsys w3) td = (Inl e, f4) \<longrightarrow>
            temp_alembic_ini here db_url body w = (Inl e, w3\<lparr>fsys := f4\<rparr>)"
    by (simp add: run)
  from fresh there ok bad show ?thesis by (intro conjI)
qed

theorem temp_alembic_ini_removes_directory_witness:
  "mkdtemp (fsys demo_world) = (Inr demo_td, demo_fs1) \<and>
   write_alembic_ini demo_here (Some (os_path_join demo_td ''alembic.ini''))
     (Some ''sqlite:///g.db'') demo_fs1 = (Inr (), demo_fs2 ''sqlite:///g.db'') \<and>
   demo_td \<in> dirs (demo_fs2 ''sqlite:///g.db'') \<and>
   fst (rmtree (demo_fs2 ''sqlite:///g.db'') demo_td) = Inr () \<and>
   fst (temp_alembic_ini demo_here ''sqlite:///g.db'' (\<lambda>p w. (Inr (), w)) demo_world) = Inr () \<and>
   demo_td \<notin> dirs (fsys (snd (temp_alembic_ini demo_here ''sqlite:///g.db''
                  (\<lambda>p w. (Inr (), w)) demo_world))) \<and>
   fst (temp_alembic_ini demo_here ''sqlite:///g.db''
          (\<lambda>p w. (Inl (Exception ''RuntimeError'') :: error + unit, w)) demo_world)
     = Inl (Exception ''RuntimeError'') \<and>
   demo_td \<notin> dirs (fsys (snd (temp_alembic_ini demo_here ''sqlite:///g.db''
                  (\<lambda>p w. (Inl (Exception ''RuntimeError'') :: error + unit, w)) demo_world)))"
proof -
  let ?f2 = "demo_fs2 ''sqlite:///g.db''"
  let ?w2 = "demo_world\<lparr>fsys := ?f2\<rparr>"
  let ?ret = "\<lambda>(p :: string) (w :: world). (Inr () :: error + unit, w)"
  let ?exn = "\<lambda>(p :: string) (w :: world). (Inl (Exception ''RuntimeError'') :: error + unit, w)"
  have rm: "fst (rmtree ?f2 demo_td) = Inr ()"
    using demo_td_in_fs2 [of "''sqlite:///g.db''"] rmtree_ok [of ?f2 demo_td]
    by (simp add: demo_td_abs)
  then obtain f4 where f4: "rmtree ?f2 demo_td = (Inr (), f4)"
    by (cases "rmtree ?f2 demo_td") simp
  have f4': "rmtree (fsys ?w2) demo_td = (Inr (), f4)"
    using f4 by simp
  have a: "temp_alembic_ini demo_here ''sqlite:///g.db'' ?ret demo_world = (Inr (), ?w2\<lparr>fsys := f4\<rparr>)
           \<and> demo_td \<notin> dirs f4"
    using temp_alembic_ini_removes_directory
      [where body = ?ret and r = "Inr ()" and ?w3.0 = ?w2,
       OF demo_mkdtemp demo_write [of "''sqlite:///g.db''"]] f4'
    by blast
  have b: "temp_alembic_ini demo_here ''sqlite:///g.db'' ?exn demo_world
             = (Inl (Exception ''RuntimeError''), ?w2\<lparr>fsys := f4\<rparr>)
           \<and> demo_td \<notin> dirs f4"
    using temp_alembic_ini_removes_directory
      [where body = ?exn and r = "Inl (Exception ''RuntimeError'')" and ?w3.0 = ?w2,
       OF demo_mkdtemp demo_write [of "''sqlite:///g.db''"]] f4'
    by blast
  from a have a1: "fst (temp_alembic_ini demo_here ''sqlite:///g.db'' ?ret demo_world) = Inr ()"
    and a2: "demo_td \<notin> dirs (fsys (snd (temp_alembic_ini demo_here ''sqlite:///g.db''
               ?ret demo_world)))"
    by simp_all
  from b have b1: "fst (temp_alembic_ini demo_here ''sqlite:///g.db'' ?exn demo_world)
                     = Inl (Exception ''RuntimeError'')"
    and b2: "demo_td \<notin> dirs (fsys (snd (temp_alembic_ini demo_here ''sqlite:///g.db''
               ?exn demo_world)))"
    by simp_all
  from demo_mkdtemp demo_write [of "''sqlite:///g.db''"] demo_td_in_fs2(1) [of "''sqlite:///g.db''"]
    rm a1 a2 b1 b2
  show ?thesis by (intro conjI)
qed



subsection \<open>The Migration Invoker and the Passthrough Command Runner\<close>

lemma scoped_check_call:
  assumes mk: "mkdtemp (fsys w) = (Inr td, f1)"
    and wr: "write_alembic_ini here (Some (os_path_join td ''alembic.ini'')) (Some db_url) f1
               = (Inr (), f2)"
    and args: "g (os_path_join td ''alembic.ini'') = prog # rest"
    and run: "run (prog # rest) f2 = (res, f3)"
  shows "temp_alembic_ini here db_url (\<lambda>alembic_ini. check_call run (g alembic_ini)) w =
           (case rmtree f3 td of
              (Inl e, f4) \<Rightarrow> (Inl e, w\<lparr>fsys := f4, calls := calls w @ [prog # rest]\<rparr>)
            | (Inr _, f4) \<Rightarrow>
                (case res of
                   SpawnFailed k \<Rightarrow> Inl (OSError k prog)
                 | Exited n \<Rightarrow> if n = 0 then Inr () else Inl (CalledProcessError n (prog # rest)),
                 w\<lparr>fsys := f4, calls := calls w @ [prog # rest]\<rparr>))"
proof -
  have "check_call run (g (os_path_join td ''alembic.ini'')) (w\<lparr>fsys := f2\<rparr>) =
          (case res of
             SpawnFailed k \<Rightarrow> Inl (OSError k prog)
           | Exited n \<Rightarrow> if n = 0 then Inr () else Inl (CalledProcessError n (prog # rest)),
           w\<lparr>fsys := f3, calls := calls w @ [prog # rest]\<rparr>)"
    using args run by (cases res) (simp_all add: check_call_def Let_def)
  then show ?thesis
    using temp_alembic_ini_run [OF mk wr, of "\<lambda>alembic_ini. check_call run (g alembic_ini)"]
    by (cases "rmtree f3 td") (auto split: sum.splits)
qed

lemma scoped_check_call_calls:
  assumes "mkdtemp (fsys w) = (Inr td, f1)"
    and "write_alembic_ini here (Some (os_path_join td ''alembic.ini'')) (Some db_url) f1
               = (Inr (), f2)"
    and "g (os_path_join td ''alembic.ini'') = prog # rest"
  shows "calls (snd (temp_alembic_ini here db_url (\<lambda>alembic_ini. check_call run (g alembic_ini)) w))
           = calls w @ [prog # rest]"
proof -
  obtain res f3 where run: "run (prog # rest) f2 = (res, f3)"
    by (cases "run (prog # rest) f2")
  show ?thesis
    unfolding scoped_check_call [where g = g and run = run, OF assms run]
    by (cases "rmtree f3 td") (auto split: sum.splits)
qed



lemma temp_alembic_ini_no_dir:
  "mkdtemp (fsys w) = (Inl e, f1) \<Longrightarrow>
   temp_alembic_ini here db_url body w = (Inl e, w\<lparr>fsys := f1\<rparr>)"
  by (simp add: temp_alembic_ini_def)

lemma temp_alembic_ini_no_file:
  assumes "mkdtemp (fsys w) = (Inr td, f1)"
    and "write_alembic_ini here (Some (os_path_join td ''alembic.ini'')) (Some db_url) f1
           = (Inl e, f2)"
  shows "\<exists>e'. fst (temp_alembic_ini here db_url body w) = Inl e'"
  using assms
  by (cases "rmtree f2 td") (auto simp: temp_alembic_ini_def Let_def split: sum.splits)

lemma rmtree_twice:
  assumes "rmtree f p = (Inr (), g)" and "files f (resolve f p) = None"
  shows "rmtree g p = (Inl (OSError FileNotFoundError p), g)"
proof -
  have r: "resolve g p = resolve f p"
    using rmtree_Inr(2) [OF assms(1)] by (simp add: resolve_def)
  have d: "resolve g p \<notin> dirs g"
    unfolding r by (rule rmtree_Inr(1) [OF assms(1)])
  have n: "files g (resolve g p) = None"
    unfolding r using assms by (auto simp: rmtree_def Let_def split: if_splits)
  show ?thesis
    by (rule rmtree_absent [OF d n])
qed

text \<open>
  Claim C4, as it is stated, fails: the exit code does not decide the result alone. A tool
  that exits with code zero after it has removed the temporary directory makes \<open>rmtree\<close>
  raise in the \<^verbatim>\<open>finally\<close> clause, and \<open>upgrade\<close> raises that
  \<^verbatim>\<open>FileNotFoundError\<close>.
\<close>

theorem upgrade_exit_zero_cleanup_fails:
  "fst (demo_tool_rm [''alembic'', ''-c'', os_path_join demo_td ''alembic.ini'', ''upgrade'', ''head'']
          (demo_fs2 ''sqlite:///g.db'')) = Exited 0 \<and>
   fst (upgrade demo_here demo_tool_rm ''sqlite:///g.db'' (Some ''head'') demo_world) =
     Inl (OSError FileNotFoundError ''/tmp/tmpzk31m_x7'')"
proof
  let ?f2 = "demo_fs2 ''sqlite:///g.db''"
  let ?argv = "[''alembic'', ''-c'', os_path_join demo_td ''alembic.ini'', ''upgrade'', ''head'']"
  show "fst (demo_tool_rm ?argv ?f2) = Exited 0"
    by (simp add: demo_tool_rm_def)
  have run: "demo_tool_rm (''alembic'' # [''-c'', os_path_join demo_td ''alembic.ini'', ''upgrade'', ''head''])
               ?f2 = (Exited 0, snd (rmtree ?f2 demo_td))"
    by (simp add: demo_tool_rm_def)
  have none: "files ?f2 (resolve ?f2 demo_td) = None"
    by (simp add: demo_fs2_def demo_fs1_def demo_fs_def demo_td_def demo_ini_def
        resolve_def isabs_def)
  have "fst (rmtree ?f2 demo_td) = Inr ()"
    using demo_td_in_fs2 [of "''sqlite:///g.db''"] rmtree_ok [of ?f2 demo_td]
    by (simp add: demo_td_abs)
  then have first: "rmtree ?f2 demo_td = (Inr (), snd (rmtree ?f2 demo_td))"
    by (cases "rmtree ?f2 demo_td") simp
  have "upgrade demo_here demo_tool_rm ''sqlite:///g.db'' (Some ''head'') demo_world =
          (Inl (OSError FileNotFoundError demo_td),
           demo_world\<lparr>fsys := snd (rmtree ?f2 demo_td), calls := calls demo_world @ [?argv]\<rparr>)"
    using scoped_check_call
      [where g = "\<lambda>alembic_ini. [''alembic'', ''-c'', alembic_ini, ''upgrade'', ''head'']"
         and prog = "''alembic''" and run = demo_tool_rm,
       OF demo_mkdtemp demo_write [of "''sqlite:///g.db''"] _ run]
    by (simp add: upgrade_def rmtree_twice [OF first none])
  then show "fst (upgrade demo_here demo_tool_rm ''sqlite:///g.db'' (Some ''head'') demo_world) =
     Inl (OSError FileNotFoundError ''/tmp/tmpzk31m_x7'')"
    by (simp add: demo_td_def)
qed

text \<open>
  Claim C4, amended. \<open>upgrade\<close> returns normally if and only if the tool is run, exits
  with code zero, and \<open>rmtree\<close> then succeeds: the tool is run when \<open>mkdtemp\<close> and the
  Configuration Writer have succeeded, on the argument list of \<open>upgrade\<close> and in the state
  that the writer left. Whenever the tool is run, it is run once, and when \<open>rmtree\<close>
  raises afterwards, \<open>upgrade\<close> raises the exception of \<open>rmtree\<close>. When the tool has
  exited with a code \<open>n\<close> other than zero and \<open>rmtree\<close> succeeds, \<open>upgrade\<close> raises
  \<open>CalledProcessError n\<close> with the argument list. So every exit code other than zero makes
  \<open>upgrade\<close> raise, and no exception is caught.
\<close>

theorem upgrade_result_follows_exit_code:
  "(fst (upgrade here run db_url (Some R) w) = Inr ()) =
     (\<exists>td f1 f2 f3.
        mkdtemp (fsys w) = (Inr td, f1) \<and>
        write_alembic_ini here (Some (os_path_join td ''alembic.ini'')) (Some db_url) f1
          = (Inr (), f2) \<and>
        run [''alembic'', ''-c'', os_path_join td ''alembic.ini'', ''upgrade'', R] f2
          = (Exited 0, f3) \<and>
        fst (rmtree f3 td) = Inr ()) \<and>
   (\<forall>td f1 f2 f3 res.
      mkdtemp (fsys w) = (Inr td, f1) \<longrightarrow>
      write_alembic_ini here (Some (os_path_join td ''alembic.ini'')) (Some db_url) f1
        = (Inr (), f2) \<longrightarrow>
      run [''alembic'', ''-c'', os_path_join td ''alembic.ini'', ''upgrade'', R] f2
        = (res, f3) \<longrightarrow>
      calls (snd (upgrade here run db_url (Some R) w)) =
        calls w @ [[''alembic'', ''-c'', os_path_join td ''alembic.ini'', ''upgrade'', R]] \<and>
      (\<forall>e. fst (rmtree f3 td) = Inl e \<longrightarrow>
         fst (upgrade here run db_url (Some R) w) = Inl e) \<and>
      (\<forall>n. res = Exited n \<longrightarrow> n \<noteq> 0 \<longrightarrow> fst (rmtree f3 td) = Inr () \<longrightarrow>
         fst (upgrade here run db_url (Some R) w) =
           Inl (CalledProcessError n
                 [''alembic'', ''-c'', os_path_join td ''alembic.ini'', ''upgrade'', R])))"
proof -
  let ?U = "upgrade here run db_url (Some R) w"
  let ?g = "\<lambda>alembic_ini. [''alembic'', ''-c'', alembic_ini, ''upgrade'', R]"
  let ?out = "\<lambda>td res. case res of
                SpawnFailed k \<Rightarrow> Inl (OSError k ''alembic'')
              | Exited n \<Rightarrow> if n = 0 then Inr ()
                            else Inl (CalledProcessError n (?g (os_path_join td ''alembic.ini'')))"
  have U: "?U =
           (case rmtree f3 td of
              (Inl e, f4) \<Rightarrow>
                (Inl e, w\<lparr>fsys := f4, calls := calls w @ [?g (os_path_join td ''alembic.ini'')]\<rparr>)
            | (Inr _, f4) \<Rightarrow>
                (?out td res,
                 w\<lparr>fsys := f4, calls := calls w @ [?g (os_path_join td ''alembic.ini'')]\<rparr>))"
    if "mkdtemp (fsys w) = (Inr td, f1)"
      and "write_alembic_ini here (Some (os_path_join td ''alembic.ini'')) (Some db_url) f1
             = (Inr (), f2)"
      and "run (?g (os_path_join td ''alembic.ini'')) f2 = (res, f3)"
    for td f1 f2 f3 res
    using scoped_check_call
      [where g = ?g and prog = "''alembic''" and run = run and res = res and ?f3.0 = f3,
       OF that(1,2)] that(3)
    by (simp add: upgrade_def)
  have fstU: "fst ?U = (case fst (rmtree f3 td) of Inl e \<Rightarrow> Inl e | Inr _ \<Rightarrow> ?out td res)"
    and callsU: "calls (snd ?U) = calls w @ [?g (os_path_join td ''alembic.ini'')]"
    if "mkdtemp (fsys w) = (Inr td, f1)"
      and "write_alembic_ini here (Some (os_path_join td ''alembic.ini'')) (Some db_url) f1
             = (Inr (), f2)"
      and "run (?g (os_path_join td ''alembic.ini'')) f2 = (res, f3)"
    for td f1 f2 f3 res
    unfolding U [OF that]
    by (cases "rmtree f3 td"; auto split: sum.splits)+
  have out0: "?out td res = Inr () \<longleftrightarrow> res = Exited 0" for td res
    by (cases res) simp_all
  have iff: "(fst ?U = Inr ()) =
     (\<exists>td f1 f2 f3.
        mkdtemp (fsys w) = (Inr td, f1) \<and>
        write_alembic_ini here (Some (os_path_join td ''alembic.ini'')) (Some db_url) f1
          = (Inr (), f2) \<and>
        run (?g (os_path_join td ''alembic.ini'')) f2 = (Exited 0, f3) \<and>
        fst (rmtree f3 td) = Inr ())"
  proof
    assume ret: "fst ?U = Inr ()"
    obtain m f1 where mk: "mkdtemp (fsys w) = (m, f1)"
      by (cases "mkdtemp (fsys w)")
    show "\<exists>td f1 f2 f3.
        mkdtemp (fsys w) = (Inr td, f1) \<and>
        write_alembic_ini here (Some (os_path_join td ''alembic.ini'')) (Some db_url) f1
          = (Inr (), f2) \<and>
        run (?g (os_path_join td ''alembic.ini'')) f2 = (Exited 0, f3) \<and>
        fst (rmtree f3 td) = Inr ()"
    proof (cases m)
      case (Inl e)
      with mk ret temp_alembic_ini_no_dir
        [of w e f1 here db_url "\<lambda>alembic_ini. check_call run (?g alembic_ini)"]
      show ?thesis by (simp add: upgrade_def)
    next
      case (Inr td)
      obtain x f2 where wr:
        "write_alembic_ini here (Some (os_path_join td ''alembic.ini'')) (Some db_url) f1 = (x, f2)"
        by (cases "write_alembic_ini here (Some (os_path_join td ''alembic.ini''))
                     (Some db_url) f1")
      show ?thesis
      proof (cases x)
        case (Inl e)
        with temp_alembic_ini_no_file
          [of w td f1 here db_url e f2 "\<lambda>alembic_ini. check_call run (?g alembic_ini)"]
          mk Inr wr ret
        show ?thesis by (auto simp: upgrade_def)
      next
        case ok: (Inr u)
        obtain res f3 where rn: "run (?g (os_path_join td ''alembic.ini'')) f2 = (res, f3)"
          by (cases "run (?g (os_path_join td ''alembic.ini'')) f2")
        from mk Inr have mk': "mkdtemp (fsys w) = (Inr td, f1)" by simp
        from wr ok have wr':
          "write_alembic_ini here (Some (os_path_join td ''alembic.ini'')) (Some db_url) f1
             = (Inr (), f2)" by simp
        from ret fstU [OF mk' wr' rn] out0 [of td res]
        have "fst (rmtree f3 td) = Inr () \<and> res = Exited 0"
          by (cases "fst (rmtree f3 td)") simp_all
        with mk' wr' rn show ?thesis by blast
      qed
    qed
  next
    assume "\<exists>td f1 f2 f3.
        mkdtemp (fsys w) = (Inr td, f1) \<and>
        write_alembic_ini here (Some (os_path_join td ''alembic.ini'')) (Some db_url) f1
          = (Inr (), f2) \<and>
        run (?g (os_path_join td ''alembic.ini'')) f2 = (Exited 0, f3) \<and>
        fst (rmtree f3 td) = Inr ()"
    then obtain td f1 f2 f3 where mk: "mkdtemp (fsys w) = (Inr td, f1)"
      and wr: "write_alembic_ini here (Some (os_path_join td ''alembic.ini'')) (Some db_url) f1
                 = (Inr (), f2)"
      and rn: "run (?g (os_path_join td ''alembic.ini'')) f2 = (Exited 0, f3)"
      and rm: "fst (rmtree f3 td) = Inr ()"
      by blast
    show "fst ?U = Inr ()"
      unfolding fstU [OF mk wr rn] rm by simp
  qed
  have rest: "\<forall>td f1 f2 f3 res.
      mkdtemp (fsys w) = (Inr td, f1) \<longrightarrow>
      write_alembic_ini here (Some (os_path_join td ''alembic.ini'')) (Some db_url) f1
        = (Inr (), f2) \<longrightarrow>
      run (?g (os_path_join td ''alembic.ini'')) f2 = (res, f3) \<longrightarrow>
      calls (snd ?U) = calls w @ [?g (os_path_join td ''alembic.ini'')] \<and>
      (\<forall>e. fst (rmtree f3 td) = Inl e \<longrightarrow> fst ?U = Inl e) \<and>
      (\<forall>n. res = Exited n \<longrightarrow> n \<noteq> 0 \<longrightarrow> fst (rmtree f3 td) = Inr () \<longrightarrow>
         fst ?U = Inl (CalledProcessError n (?g (os_path_join td ''alembic.ini''))))"
  proof (intro allI impI conjI)
    fix td f1 f2 f3 res
    assume mk: "mkdtemp (fsys w) = (Inr td, f1)"
      and wr: "write_alembic_ini here (Some (os_path_join td ''alembic.ini'')) (Some db_url) f1
                 = (Inr (), f2)"
      and rn: "run (?g (os_path_join td ''alembic.ini'')) f2 = (res, f3)"
    show "calls (snd ?U) = calls w @ [?g (os_path_join td ''alembic.ini'')]"
      by (rule callsU [OF mk wr rn])
    show "fst ?U = Inl e" if "fst (rmtree f3 td) = Inl e" for e
      unfolding fstU [OF mk wr rn] that by simp
    show "fst ?U = Inl (CalledProcessError n (?g (os_path_join td ''alembic.ini'')))"
      if "res = Exited n" and "n \<noteq> 0" and "fst (rmtree f3 td) = Inr ()" for n
      unfolding fstU [OF mk wr rn] using that by simp
  qed
  from iff rest show ?thesis by simp
qed

lemma demo_tool_run: "demo_tool n args (demo_fs2 url) = (Exited n, demo_fs3 url)"
  by (simp add: demo_tool_def demo_fs3_def)

lemma demo_td_kept: "fst (rmtree (demo_fs3 url) demo_td) = Inr ()"
  using rmtree_ok [of "demo_fs3 url" demo_td] demo_td_in_fs2 [of url]
  by (simp add: demo_td_abs demo_fs3_def)

theorem upgrade_result_follows_exit_code_witness:
  "mkdtemp (fsys demo_world) = (Inr demo_td, demo_fs1) \<and>
   write_alembic_ini demo_here (Some (os_path_join demo_td ''alembic.ini''))
     (Some ''sqlite:///g.db'') demo_fs1 = (Inr (), demo_fs2 ''sqlite:///g.db'') \<and>
   demo_tool 0 [''alembic'', ''-c'', os_path_join demo_td ''alembic.ini'', ''upgrade'', ''head'']
     (demo_fs2 ''sqlite:///g.db'') = (Exited 0, demo_fs3 ''sqlite:///g.db'') \<and>
   demo_tool 3 [''alembic'', ''-c'', os_path_join demo_td ''alembic.ini'', ''upgrade'', ''head'']
     (demo_fs2 ''sqlite:///g.db'') = (Exited 3, demo_fs3 ''sqlite:///g.db'') \<and>
   fst (rmtree (demo_fs3 ''sqlite:///g.db'') demo_td) = Inr () \<and>
   fst (upgrade demo_here (demo_tool 0) ''sqlite:///g.db'' (Some ''head'') demo_world) = Inr () \<and>
   fst (upgrade demo_here (demo_tool 3) ''sqlite:///g.db'' (Some ''head'') demo_world) =
     Inl (CalledProcessError 3
           [''alembic'', ''-c'', os_path_join demo_td ''alembic.ini'', ''upgrade'', ''head''])"
proof -
  note wr = demo_write [of "''sqlite:///g.db''"]
  note rm = demo_td_kept [of "''sqlite:///g.db''"]
  note run0 = demo_tool_run [of 0 _ "''sqlite:///g.db''"]
  note run3 = demo_tool_run [of 3 _ "''sqlite:///g.db''"]
  have zero: "fst (upgrade demo_here (demo_tool 0) ''sqlite:///g.db'' (Some ''head'') demo_world)
                = Inr ()"
    using upgrade_result_follows_exit_code
      [of demo_here "demo_tool 0" "''sqlite:///g.db''" "''head''" demo_world]
      demo_mkdtemp wr run0 rm
    by blast
  have "(3::int) \<noteq> 0" by simp
  then have three:
    "fst (upgrade demo_here (demo_tool 3) ''sqlite:///g.db'' (Some ''head'') demo_world) =
     Inl (CalledProcessError 3
           [''alembic'', ''-c'', os_path_join demo_td ''alembic.ini'', ''upgrade'', ''head''])"
    using upgrade_result_follows_exit_code
      [of demo_here "demo_tool 3" "''sqlite:///g.db''" "''head''" demo_world]
      demo_mkdtemp wr run3 rm
    by blast
  from demo_mkdtemp wr run0 run3 rm zero three
  show ?thesis by (intro conjI)
qed

text \<open>
  Claim C6. \<open>alembic\<close> (\<^verbatim>\<open>_alembic\<close> in the source) sets up the temporary
  configuration for the connection string \<^verbatim>\<open>sqlite:///gradebook.db\<close>, the SQLite URL of
  the file \<^verbatim>\<open>gradebook.db\<close>. When that has succeeded, it runs \<open>check_call\<close> on the
  argument list \<^verbatim>\<open>alembic -c <td>/alembic.ini\<close> followed by \<open>args\<close>, in a file system
  whose configuration file holds the template filled with that URL, and the log of
  invocations grows by exactly this argument list.
\<close>

theorem alembic_passes_arguments_through:
  assumes mk: "mkdtemp (fsys w) = (Inr td, f1)"
    and wr: "write_alembic_ini here (Some (os_path_join td ''alembic.ini''))
               (Some (''sqlite:///'' @ ''gradebook.db'')) f1 = (Inr (), f2)"
    and rd: "open_read f1 (ALEMBIC_INI_TEMPLATE_PATH here) = Inr (template_text segs)"
    and plain: "list_all plain_segment segs"
  shows "alembic here run args w =
           (case check_call run ([''alembic'', ''-c'', os_path_join td ''alembic.ini''] @ args)
                   (w\<lparr>fsys := f2\<rparr>) of
              (r, w3) \<Rightarrow>
                (case rmtree (fsys w3) td of
                   (Inl e, f4) \<Rightarrow> (Inl e, w3\<lparr>fsys := f4\<rparr>)
                 | (Inr _, f4) \<Rightarrow> (r, w3\<lparr>fsys := f4\<rparr>))) \<and>
         files f2 (resolve f2 (os_path_join td ''alembic.ini'')) =
           Some (fill segs (ALEMBIC_DIR here) ''sqlite:///gradebook.db'') \<and>
         calls (snd (alembic here run args w)) =
           calls w @ [[''alembic'', ''-c'', os_path_join td ''alembic.ini''] @ args]"
proof (intro conjI)
  from wr have wr': "write_alembic_ini here (Some (os_path_join td ''alembic.ini''))
               (Some ''sqlite:///gradebook.db'') f1 = (Inr (), f2)" by simp
  show "alembic here run args w =
           (case check_call run ([''alembic'', ''-c'', os_path_join td ''alembic.ini''] @ args)
                   (w\<lparr>fsys := f2\<rparr>) of
              (r, w3) \<Rightarrow>
                (case rmtree (fsys w3) td of
                   (Inl e, f4) \<Rightarrow> (Inl e, w3\<lparr>fsys := f4\<rparr>)
                 | (Inr _, f4) \<Rightarrow> (r, w3\<lparr>fsys := f4\<rparr>)))"
    unfolding alembic_def
    by (rule temp_alembic_ini_run [OF mk wr'])
  show "files f2 (resolve f2 (os_path_join td ''alembic.ini'')) =
           Some (fill segs (ALEMBIC_DIR here) ''sqlite:///gradebook.db'')"
    using write_alembic_ini_Inr [OF wr'] rd
      str_format_segments [OF plain, of "ALEMBIC_DIR here" "''sqlite:///gradebook.db''"]
    by auto
  show "calls (snd (alembic here run args w)) =
           calls w @ [[''alembic'', ''-c'', os_path_join td ''alembic.ini''] @ args]"
    using scoped_check_call_calls
      [where g = "\<lambda>alembic_ini. [''alembic'', ''-c'', alembic_ini] @ args"
         and prog = "''alembic''" and run = run, OF mk wr']
    by (simp add: alembic_def)
qed

theorem alembic_passes_arguments_through_witness:
  "mkdtemp (fsys demo_world) = (Inr demo_td, demo_fs1) \<and>
   write_alembic_ini demo_here (Some (os_path_join demo_td ''alembic.ini''))
     (Some (''sqlite:///'' @ ''gradebook.db'')) demo_fs1
     = (Inr (), demo_fs2 ''sqlite:///gradebook.db'') \<and>
   open_read demo_fs1 (ALEMBIC_INI_TEMPLATE_PATH demo_here) = Inr (template_text demo_segs) \<and>
   list_all plain_segment demo_segs \<and>
   calls (snd (alembic demo_here (demo_tool 0) [''history'', ''--verbose''] demo_world)) =
     calls demo_world @
       [[''alembic'', ''-c'', os_path_join demo_td ''alembic.ini''] @ [''history'', ''--verbose'']]"
proof -
  have wr: "write_alembic_ini demo_here (Some (os_path_join demo_td ''alembic.ini''))
     (Some (''sqlite:///'' @ ''gradebook.db'')) demo_fs1
     = (Inr (), demo_fs2 ''sqlite:///gradebook.db'')"
    using demo_write [of "''sqlite:///gradebook.db''"] by simp
  have "calls (snd (alembic demo_here (demo_tool 0) [''history'', ''--verbose''] demo_world)) =
     calls demo_world @
       [[''alembic'', ''-c'', os_path_join demo_td ''alembic.ini''] @ [''history'', ''--verbose'']]"
    using alembic_passes_arguments_through
      [where run = "demo_tool 0" and args = "[''history'', ''--verbose'']",
       OF demo_mkdtemp wr demo_read1 demo_plain]
    by blast
  with demo_mkdtemp wr demo_read1 demo_plain show ?thesis by (intro conjI)
qed

subsection \<open>The migrations directory\<close>

text \<open>
  Claim C10. \<open>ALEMBIC_DIR\<close> is \<^verbatim>\<open>os.path.join(_here, 'alembic')\<close>, a path inside the
  directory of the module. Whatever arguments \<open>write_alembic_ini\<close> is called with, given
  or left out, the placeholder for the migrations directory is replaced by this path in
  the file that it writes: the arguments decide the target and the URL only. The other
  operations have no parameter for the directory either and reach the writer with the
  same \<open>here\<close>.
\<close>

theorem alembic_dir_is_fixed:
  assumes rd: "open_read f (ALEMBIC_INI_TEMPLATE_PATH here) = Inr (template_text segs)"
    and plain: "list_all plain_segment segs"
    and ow: "open_write f (case a of None \<Rightarrow> ''alembic.ini'' | Some p \<Rightarrow> p) = Inr f1"
  shows "ALEMBIC_DIR here = os_path_join here ''alembic'' \<and>
         (here \<noteq> [] \<longrightarrow> inside here (ALEMBIC_DIR here)) \<and>
         write_alembic_ini here a d f =
           (if resolve f (case a of None \<Rightarrow> ''alembic.ini'' | Some p \<Rightarrow> p) \<in> write_faults f
            then (Inl (OSError Errno_ENOSPC (case a of None \<Rightarrow> ''alembic.ini'' | Some p \<Rightarrow> p)),
                  f1)
            else (Inr (), f\<lparr>files := (files f)
                    (resolve f (case a of None \<Rightarrow> ''alembic.ini'' | Some p \<Rightarrow> p) \<mapsto>
                     fill segs (os_path_join here ''alembic'')
                       (case d of None \<Rightarrow> ''sqlite:///gradebook.db'' | Some u \<Rightarrow> u))\<rparr>))"
proof -
  have dir: "ALEMBIC_DIR here = os_path_join here ''alembic''"
    by (simp add: ALEMBIC_DIR_def)
  show ?thesis
  proof (intro conjI impI)
    show "ALEMBIC_DIR here = os_path_join here ''alembic''"
      by (rule dir)
  next
    assume "here \<noteq> []"
    then show "inside here (ALEMBIC_DIR here)"
      unfolding dir by (rule inside_join) (simp_all add: isabs_def)
  next
    show "write_alembic_ini here a d f =
           (if resolve f (case a of None \<Rightarrow> ''alembic.ini'' | Some p \<Rightarrow> p) \<in> write_faults f
            then (Inl (OSError Errno_ENOSPC (case a of None \<Rightarrow> ''alembic.ini'' | Some p \<Rightarrow> p)),
                  f1)
            else (Inr (), f\<lparr>files := (files f)
                    (resolve f (case a of None \<Rightarrow> ''alembic.ini'' | Some p \<Rightarrow> p) \<mapsto>
                     fill segs (os_path_join here ''alembic'')
                       (case d of None \<Rightarrow> ''sqlite:///gradebook.db'' | Some u \<Rightarrow> u))\<rparr>))"
      using write_alembic_ini_outcome [OF rd plain ow, of d] by (simp only: dir)
  qed
qed

theorem alembic_dir_is_fixed_witness:
  "open_read demo_fs (ALEMBIC_INI_TEMPLATE_PATH demo_here) = Inr (template_text demo_segs) \<and>
   list_all plain_segment demo_segs \<and>
   open_write demo_fs ''/tmp/x/alembic.ini''
     = Inr (demo_fs\<lparr>files := (files demo_fs)(''/tmp/x/alembic.ini'' \<mapsto> [])\<rparr>) \<and>
   resolve demo_fs ''/tmp/x/alembic.ini'' \<notin> write_faults demo_fs \<and>
   demo_here \<noteq> [] \<and>
   inside demo_here (ALEMBIC_DIR demo_here) \<and>
   write_alembic_ini demo_here (Some ''/tmp/x/alembic.ini'') (Some ''{alembic_dir}'') demo_fs =
     (Inr (), demo_fs\<lparr>files := (files demo_fs)(''/tmp/x/alembic.ini'' \<mapsto>
        ''[alembic]'' @ [CHR 0x0A] @ ''script_location = /opt/nbgrader/alembic'' @ [CHR 0x0A] @
        ''sqlalchemy.url = {alembic_dir}'' @ [CHR 0x0A])\<rparr>)"
proof -
  have w: "open_write demo_fs (case Some ''/tmp/x/alembic.ini'' of
                                 None \<Rightarrow> ''alembic.ini'' | Some p \<Rightarrow> p)
             = Inr (demo_fs\<lparr>files := (files demo_fs)(''/tmp/x/alembic.ini'' \<mapsto> [])\<rparr>)"
    using demo_open by simp
  have n: "demo_here \<noteq> []" by (simp add: demo_here_def)
  have d: "fill demo_segs (os_path_join demo_here ''alembic'') ''{alembic_dir}'' =
        ''[alembic]'' @ [CHR 0x0A] @ ''script_location = /opt/nbgrader/alembic'' @ [CHR 0x0A] @
        ''sqlalchemy.url = {alembic_dir}'' @ [CHR 0x0A]"
    by (simp add: demo_segs_def demo_here_def os_path_join_def isabs_def)
  note inst = alembic_dir_is_fixed [OF demo_read demo_plain w, of "Some ''{alembic_dir}''"]
  from inst n have i: "inside demo_here (ALEMBIC_DIR demo_here)" by blast
  from inst demo_no_fault have "write_alembic_ini demo_here (Some ''/tmp/x/alembic.ini'')
       (Some ''{alembic_dir}'') demo_fs =
     (Inr (), demo_fs\<lparr>files := (files demo_fs)(''/tmp/x/alembic.ini'' \<mapsto>
        ''[alembic]'' @ [CHR 0x0A] @ ''script_location = /opt/nbgrader/alembic'' @ [CHR 0x0A] @
        ''sqlalchemy.url = {alembic_dir}'' @ [CHR 0x0A])\<rparr>)"
    by (simp only: demo_resolve d option.case if_False simp_thms)
  with demo_read demo_plain demo_open demo_no_fault n i show ?thesis by (intro conjI)
qed

end
